theory Spec2Isabelle
  imports Complex_Main "HOL-Library.Sublist"
begin

text \<open>
  The dependency drift tracker reads a list of repositories, clones them, runs a drift
  calculator in each package and appends a summary of the result to a history file per
  package. Its entry point src/index.mjs is present in two revisions: one enriches the
  history with the number of bump pull requests merged the day before (the revision the
  tests are written against), the other writes index files and has no enrichment.
  Functions that are the same in both are modelled once; of those that differ, the model
  of the second revision carries the suffix \<open>_idx\<close>.
\<close>

section \<open>Strings\<close>

text \<open>
  JavaScript strings are modelled as \<^typ>\<open>string\<close> (lists of characters). All patterns
  of the program are ASCII and none of its regular expressions carries the \<open>u\<close> flag, so a
  character of the model stands for one code unit of the source string.
\<close>

text \<open>
  \<^verbatim>\<open>String.prototype.split(sep)\<close> for a one-character separator: the pieces between the
  occurrences of \<open>sep\<close>, in order. The result is never empty (\<^verbatim>\<open>''.split('#')\<close> is
  \<^verbatim>\<open>['']\<close>).
\<close>

fun js_split :: "char \<Rightarrow> string \<Rightarrow> string list" where
  "js_split sep [] = [[]]"
| "js_split sep (c # cs) =
     (if c = sep then [] # js_split sep cs
      else (case js_split sep cs of
              [] \<Rightarrow> [[c]]
            | x # xs \<Rightarrow> (c # x) # xs))"

section \<open>Configuration lines (src/index.mjs, parseRepositoryLine)\<close>

record repositoryEntry =
  repository :: string
  path :: string

text \<open>
  \<^verbatim>\<open>
  export function parseRepositoryLine(line) {
    const [repository, path] = line.split('#');
    return { repository, path: path || '' };
  }
  \<close>
  The destructuring keeps the first two pieces of the split and ignores the others;
  \<^verbatim>\<open>path || ''\<close> turns a missing second piece (\<^verbatim>\<open>undefined\<close>) into the empty string and
  leaves an empty piece empty. The split has at least one piece, so the first case below
  is never taken.
\<close>

definition parseRepositoryLine :: "string \<Rightarrow> repositoryEntry" where
  "parseRepositoryLine line =
     (case js_split (CHR ''#'') line of
        [] \<Rightarrow> \<lparr>repository = [], path = []\<rparr>
      | [r] \<Rightarrow> \<lparr>repository = r, path = []\<rparr>
      | r # p # _ \<Rightarrow> \<lparr>repository = r, path = p\<rparr>)"

section \<open>Safe names (src/index.mjs, replaceRepositoryWithSafeChar)\<close>

text \<open>
  \<^verbatim>\<open>
  export function replaceRepositoryWithSafeChar(line) {
    return line.replaceAll(/(https?:\/\/)/g, '').replaceAll(/(-|\/|:|\.|#)/g, '-');
  }
  \<close>
  The first \<^verbatim>\<open>replaceAll\<close> scans the line from left to right and deletes every match of
  \<^verbatim>\<open>https?:\/\/\<close>, resuming after the end of each match; the expression has no anchor.
  The second replaces every character of the class by a dash, one for one.
\<close>

fun removeSchemes :: "string \<Rightarrow> string" where
  "removeSchemes [] = []"
| "removeSchemes (c # cs) =
     (if prefix ''https://'' (c # cs) then removeSchemes (drop 7 cs)
      else if prefix ''http://'' (c # cs) then removeSchemes (drop 6 cs)
      else c # removeSchemes cs)"

definition safeChar :: "char \<Rightarrow> char" where
  "safeChar c =
     (if c = CHR ''-'' \<or> c = CHR ''/'' \<or> c = CHR '':'' \<or> c = CHR ''.'' \<or> c = CHR ''#''
      then CHR ''-'' else c)"

definition replaceRepositoryWithSafeChar :: "string \<Rightarrow> string" where
  "replaceRepositoryWithSafeChar line = map safeChar (removeSchemes line)"



section \<open>Credential substitution (replaceRepositoryVariablesWithEnvVariables)\<close>

text \<open>
  \<^verbatim>\<open>String.prototype.replaceAll(searchString, replaceValue)\<close> with two strings. Every
  occurrence of the search string, found from left to right without overlap, is replaced
  by the expansion of the replacement template (ECMAScript GetSubstitution): \<^verbatim>\<open>$$\<close> stands
  for a dollar sign, \<^verbatim>\<open>$&\<close> for the matched text, \<^verbatim>\<open>$`\<close> for the part of the subject
  before the match and \<^verbatim>\<open>$'\<close> for the part after it. A string pattern has no capture
  groups, so every other \<^verbatim>\<open>$\<close> is literal.
\<close>

fun getSubstitution :: "string \<Rightarrow> string \<Rightarrow> string \<Rightarrow> string \<Rightarrow> string" where
  "getSubstitution matched pre post [] = []"
| "getSubstitution matched pre post [c] = [c]"
| "getSubstitution matched pre post (c # d # r) =
     (if c = CHR ''$'' \<and> d = CHR ''$'' then CHR ''$'' # getSubstitution matched pre post r
      else if c = CHR ''$'' \<and> d = CHR ''&'' then matched @ getSubstitution matched pre post r
      else if c = CHR ''$'' \<and> d = CHR 0x60 then pre @ getSubstitution matched pre post r
      else if c = CHR ''$'' \<and> d = CHR 0x27 then post @ getSubstitution matched pre post r
      else c # getSubstitution matched pre post (d # r))"

text \<open>Whether a replacement template contains one of the four patterns.\<close>

fun hasPattern :: "string \<Rightarrow> bool" where
  "hasPattern (c # d # r) =
     (c = CHR ''$'' \<and> (d = CHR ''$'' \<or> d = CHR ''&'' \<or> d = CHR 0x60 \<or> d = CHR 0x27)
      \<or> hasPattern (d # r))"
| "hasPattern _ = False"

text \<open>
  The scan: \<open>pre\<close> is the part of the subject already passed, the last argument the part
  still to scan. After a match the scan resumes behind it (behind one character for the
  empty pattern, which matches at every position).
\<close>

fun replaceAll_from :: "string \<Rightarrow> string \<Rightarrow> string \<Rightarrow> string \<Rightarrow> string" where
  "replaceAll_from pat tpl pre [] =
     (if pat = [] then getSubstitution pat pre [] tpl else [])"
| "replaceAll_from pat tpl pre (c # cs) =
     (if pat = [] then
        getSubstitution pat pre (c # cs) tpl @ c # replaceAll_from pat tpl (pre @ [c]) cs
      else if prefix pat (c # cs) then
        getSubstitution pat pre (drop (length pat) (c # cs)) tpl @
          replaceAll_from pat tpl (pre @ pat) (drop (length pat) (c # cs))
      else c # replaceAll_from pat tpl (pre @ [c]) cs)"

definition replaceAll :: "string \<Rightarrow> string \<Rightarrow> string \<Rightarrow> string" where
  "replaceAll pat tpl s = replaceAll_from pat tpl [] s"

text \<open>
  \<^verbatim>\<open>
  export function replaceRepositoryVariablesWithEnvVariables(repository, variables) {
    return Object.keys(variables).reduce((memo, key) => {
      return memo.replaceAll(`$${key}`, variables[key]);
    }, repository);
  }
  \<close>
  The object \<^verbatim>\<open>variables\<close> is given by its entries in the order of \<^verbatim>\<open>Object.keys\<close>;
  \<^verbatim>\<open>reduce\<close> is a left fold.
\<close>

definition replaceRepositoryVariablesWithEnvVariables ::
    "string \<Rightarrow> (string \<times> string) list \<Rightarrow> string" where
  "replaceRepositoryVariablesWithEnvVariables repo variables =
     foldl (\<lambda>memo (key, v). replaceAll (CHR ''$'' # key) v memo) repo variables"

section \<open>Dates\<close>

text \<open>
  A \<^verbatim>\<open>Date\<close> is its time value, the milliseconds since the epoch in UTC. The calendar
  fields are those of ECMAScript: the day number \<open>t div msPerDay\<close>, the day number
  \<open>DayFromYear y\<close> of the first day of year \<open>y\<close>, the year of a day (the largest \<open>y\<close>
  with \<open>DayFromYear y \<le> z\<close>, computed from the mean length of a year and corrected by
  at most one), the day within the year, and the month (0 to 11) and date read from the
  table of the month starts.
\<close>

definition msPerDay :: int where
  "msPerDay = 86400000"

definition DayFromYear :: "int \<Rightarrow> int" where
  "DayFromYear y = 365 * (y - 1970) + (y - 1969) div 4 - (y - 1901) div 100 + (y - 1601) div 400"

definition InLeapYear :: "int \<Rightarrow> int" where
  "InLeapYear y =
     (if y mod 4 \<noteq> 0 then 0 else if y mod 100 \<noteq> 0 then 1 else if y mod 400 \<noteq> 0 then 0 else 1)"

definition YearFromDay :: "int \<Rightarrow> int" where
  "YearFromDay z =
     (let y0 = 1970 + (400 * z) div 146097
      in if DayFromYear (y0 + 1) \<le> z then y0 + 1
         else if DayFromYear y0 \<le> z then y0
         else y0 - 1)"

definition DayWithinYear :: "int \<Rightarrow> int" where
  "DayWithinYear z = z - DayFromYear (YearFromDay z)"

text \<open>The day within the year on which month \<open>m\<close> starts; \<open>leap\<close> is 1 in a leap year.\<close>

definition monthStart :: "int \<Rightarrow> int \<Rightarrow> int" where
  "monthStart leap m =
     (if m \<le> 0 then 0 else if m = 1 then 31 else if m = 2 then 59 + leap
      else if m = 3 then 90 + leap else if m = 4 then 120 + leap else if m = 5 then 151 + leap
      else if m = 6 then 181 + leap else if m = 7 then 212 + leap else if m = 8 then 243 + leap
      else if m = 9 then 273 + leap else if m = 10 then 304 + leap else 334 + leap)"

definition monthOfDay :: "int \<Rightarrow> int \<Rightarrow> int" where
  "monthOfDay leap d =
     (if d < 31 then 0 else if d < 59 + leap then 1 else if d < 90 + leap then 2
      else if d < 120 + leap then 3 else if d < 151 + leap then 4 else if d < 181 + leap then 5
      else if d < 212 + leap then 6 else if d < 243 + leap then 7 else if d < 273 + leap then 8
      else if d < 304 + leap then 9 else if d < 334 + leap then 10 else 11)"

definition YearFromTime :: "int \<Rightarrow> int" where
  "YearFromTime t = YearFromDay (t div msPerDay)"

definition MonthFromTime :: "int \<Rightarrow> int" where
  "MonthFromTime t = monthOfDay (InLeapYear (YearFromTime t)) (DayWithinYear (t div msPerDay))"

definition DateFromTime :: "int \<Rightarrow> int" where
  "DateFromTime t =
     DayWithinYear (t div msPerDay) - monthStart (InLeapYear (YearFromTime t)) (MonthFromTime t) + 1"

text \<open>
  ECMAScript MakeDay for a month from 0 to 11: the day number of the \<open>dt\<close>-th day of the
  month, where the days before the first and after the last count on into the
  neighbouring months.
\<close>

definition MakeDay :: "int \<Rightarrow> int \<Rightarrow> int \<Rightarrow> int" where
  "MakeDay y m dt = DayFromYear y + monthStart (InLeapYear y) m + dt - 1"

definition digit :: "int \<Rightarrow> char" where
  "digit n = ''0123456789'' ! nat (n mod 10)"

definition pad2 :: "int \<Rightarrow> string" where
  "pad2 n = [digit (n div 10), digit n]"

definition pad3 :: "int \<Rightarrow> string" where
  "pad3 n = [digit (n div 100), digit (n div 10), digit n]"

text \<open>
  The year of \<^verbatim>\<open>toISOString\<close>: four digits from 0 to 9999, otherwise a sign and six
  digits.
\<close>

definition isoYear :: "int \<Rightarrow> string" where
  "isoYear y =
     (if 0 \<le> y \<and> y \<le> 9999
      then [digit (y div 1000), digit (y div 100), digit (y div 10), digit y]
      else (if y < 0 then CHR ''-'' else CHR ''+'') #
           [digit (\<bar>y\<bar> div 100000), digit (\<bar>y\<bar> div 10000), digit (\<bar>y\<bar> div 1000),
            digit (\<bar>y\<bar> div 100), digit (\<bar>y\<bar> div 10), digit \<bar>y\<bar>])"

definition isoDay :: "int \<Rightarrow> string" where
  "isoDay t =
     isoYear (YearFromTime t) @ ''-'' @ pad2 (MonthFromTime t + 1) @ ''-'' @ pad2 (DateFromTime t)"

definition toISOString :: "int \<Rightarrow> string" where
  "toISOString t =
     isoDay t @ ''T'' @ pad2 (t mod msPerDay div 3600000) @ '':'' @
     pad2 (t mod msPerDay div 60000 mod 60) @ '':'' @ pad2 (t mod msPerDay div 1000 mod 60) @
     ''.'' @ pad3 (t mod msPerDay mod 1000) @ ''Z''"

text \<open>
  The Gregorian calendar on its own, for comparison with the fields above: the leap
  years, the lengths of the months, and the date that follows a date (year, month from 1
  to 12, day of the month).
\<close>

definition leapYear :: "int \<Rightarrow> bool" where
  "leapYear y = (y mod 4 = 0 \<and> (y mod 100 \<noteq> 0 \<or> y mod 400 = 0))"

definition daysInMonth :: "int \<Rightarrow> int \<Rightarrow> int" where
  "daysInMonth y m =
     (if m = 2 then (if leapYear y then 29 else 28)
      else if m = 4 \<or> m = 6 \<or> m = 9 \<or> m = 11 then 30 else 31)"

definition civilNextDay :: "int \<times> int \<times> int \<Rightarrow> int \<times> int \<times> int" where
  "civilNextDay c =
     (case c of (y, m, d) \<Rightarrow>
        if d < daysInMonth y m then (y, m, d + 1)
        else if m < 12 then (y, m + 1, 1)
        else (y + 1, 1, 1))"

section \<open>Data of the pipeline\<close>

text \<open>
  A JavaScript number is an IEEE 754 double: a finite value (the rational it denotes),
  an infinity (\<open>True\<close> for the positive one) or NaN. \<open>Null\<close> is the value \<^verbatim>\<open>null\<close>, which
  is what \<^verbatim>\<open>JSON.stringify\<close> writes for NaN and the infinities. The two zeros are not
  told apart: \<^verbatim>\<open>x || 0\<close> turns a negative zero into 0 and a sum that starts from 0 never
  is one.
\<close>

datatype number = Finite rat | Infinity bool | NaN | Null

function bitLength :: "int \<Rightarrow> int" where
  "bitLength n = (if n \<le> 0 then 0 else 1 + bitLength (n div 2))"
  by pat_completeness auto
termination
  by (relation "measure nat") auto

declare bitLength.simps [simp del]

definition pow2 :: "int \<Rightarrow> rat" where
  "pow2 k = (if 0 \<le> k then 2 ^ nat k else 1 / 2 ^ nat (- k))"

text \<open>The exponent of a positive rational: the largest \<open>k\<close> with \<open>pow2 k \<le> a\<close>.\<close>

definition floorLog2 :: "rat \<Rightarrow> int" where
  "floorLog2 a =
     (case quotient_of a of
        (p, q) \<Rightarrow>
          (let k = bitLength p - bitLength q
           in if pow2 k \<le> a then k else k - 1))"

definition roundHalfEven :: "rat \<Rightarrow> int" where
  "roundHalfEven q =
     (let n = \<lfloor>q\<rfloor>; f = q - of_int n
      in if f < 1 / 2 then n else if 1 / 2 < f then n + 1 else if even n then n else n + 1)"

text \<open>
  Rounding to the nearest double, ties to even: 53 significant bits, the spacing
  \<open>pow2 (- 1074)\<close> below \<open>pow2 (- 1022)\<close> (subnormals), and infinity when the rounded
  value reaches \<open>pow2 1024\<close>.
\<close>

definition roundDouble :: "rat \<Rightarrow> number" where
  "roundDouble x =
     (if x = 0 then Finite 0
      else (let ulp = pow2 (max (floorLog2 \<bar>x\<bar>) (- 1022) - 52);
                r = of_int (roundHalfEven (\<bar>x\<bar> / ulp)) * ulp
            in if 1024 \<le> floorLog2 r then Infinity (0 < x)
               else Finite (if 0 < x then r else - r)))"

text \<open>
  The operator \<^verbatim>\<open>+\<close> on numbers: \<^verbatim>\<open>null\<close> is converted to 0 (ToNumber), NaN and
  infinities of opposite signs give NaN, and the sum of two finite doubles is rounded.
\<close>

definition toNumber :: "number \<Rightarrow> number" where
  "toNumber x = (if x = Null then Finite 0 else x)"

fun addDouble :: "number \<Rightarrow> number \<Rightarrow> number" where
  "addDouble (Finite a) (Finite b) = roundDouble (a + b)"
| "addDouble (Finite a) (Infinity t) = Infinity t"
| "addDouble (Infinity s) (Finite b) = Infinity s"
| "addDouble (Infinity s) (Infinity t) = (if s = t then Infinity s else NaN)"
| "addDouble _ _ = NaN"

definition plusNumber :: "number \<Rightarrow> number \<Rightarrow> number" where
  "plusNumber a b = addDouble (toNumber a) (toNumber b)"

definition jsonNumber :: "number \<Rightarrow> number" where
  "jsonNumber x = (case x of Finite a \<Rightarrow> Finite a | _ \<Rightarrow> Null)"

text \<open>
  A record of the drift calculator carries optional numeric fields \<^verbatim>\<open>drift\<close> and
  \<^verbatim>\<open>pulse\<close>; \<open>None\<close> is an absent (\<^verbatim>\<open>undefined\<close>) field. The program reads no other
  field.
\<close>

record dependency =
  dep_drift :: "number option"
  dep_pulse :: "number option"

text \<open>
  A summary as it is built in memory and as it stands in a history file. \<open>date\<close> is a
  time value; it is \<open>None\<close> for a summary that has no (valid) \<^verbatim>\<open>date\<close> property.
\<close>

record summary =
  drift :: number
  pulse :: number
  date :: "int option"
  mergedBumpPullRequests :: "nat option"

datatype error =
    ChdirError string
  | LibyearError string
  | RequestError string
  | CloneError string
  | JsonError string
  | RangeError

text \<open>
  The files under \<^verbatim>\<open>data/\<close>, by what the program writes in them: a JSON array of
  summaries, or a JSON array of calculator records. Any other content is \<open>Unreadable\<close>
  as a history.
\<close>

datatype content =
    Summaries "summary list"
  | Records "dependency list"
  | Unreadable

record clone_call =
  clone_repository :: string
  clone_url :: string
  clone_dir :: string

text \<open>
  The state the program acts on: the working directory of the process, the files, the
  number of temporary directories made so far, and the clone operations performed so
  far, in order.
\<close>

record world =
  cwd :: string
  files :: "string \<Rightarrow> content option"
  tmpdirs :: nat
  clone_calls :: "clone_call list"

text \<open>
  What the program takes from outside: the clock (\<open>now\<close>, and \<open>now_later\<close> for a
  reading taken after it), the offset of the local time zone (ECMAScript LocalTZA: the
  offset in force at a time given in UTC when the flag is true, at a local time when it
  is false), the directories \<^verbatim>\<open>chdir\<close> can enter, the drift calculator (called with a package
  manager, running in the working directory), the search request (the query sent, the
  number of nodes answered), \<^verbatim>\<open>git clone\<close>, the environment variables, the directory
  of temporary files and the random suffix \<^verbatim>\<open>mkdtemp\<close> draws for its \<open>n\<close>-th directory.
  Each external call either returns or throws.
\<close>

record env =
  now :: int
  now_later :: int
  localTZA :: "int \<Rightarrow> bool \<Rightarrow> int"
  dir_exists :: "string \<Rightarrow> bool"
  libyear :: "string \<Rightarrow> string \<Rightarrow> error + dependency list"
  github :: "string \<Rightarrow> error + nat"
  git_clone :: "string \<Rightarrow> string \<Rightarrow> error + unit"
  process_env :: "(string \<times> string) list"
  tmpdir :: string
  tmp_suffix :: "nat \<Rightarrow> string"

text \<open>\<^verbatim>\<open>path.sep\<close> on a POSIX system.\<close>

definition sep :: string where
  "sep = ''/''"

section \<open>Summaries (createSummary)\<close>

text \<open>
  \<^verbatim>\<open>x || 0\<close> on an optional number: the falsy values \<^verbatim>\<open>undefined\<close>, \<^verbatim>\<open>null\<close>, NaN and 0
  give 0, every other number is kept.
\<close>

definition orZero :: "number option \<Rightarrow> number" where
  "orZero x =
     (case x of
        None \<Rightarrow> Finite 0
      | Some v \<Rightarrow> if v = NaN \<or> v = Null \<or> v = Finite 0 then Finite 0 else v)"

text \<open>
  \<^verbatim>\<open>
  export function createSummary(result) {
    return result.reduce((memo, dep) => {
      memo.drift += dep.drift || 0;
      memo.pulse += dep.pulse || 0;
      return memo;
    }, { drift: 0, pulse: 0, date: new Date() });
  }
  \<close>
\<close>

definition createSummary :: "env \<Rightarrow> dependency list \<Rightarrow> summary" where
  "createSummary e result =
     foldl (\<lambda>memo dep. memo\<lparr>drift := plusNumber (drift memo) (orZero (dep_drift dep)),
                               pulse := plusNumber (pulse memo) (orZero (dep_pulse dep))\<rparr>)
       \<lparr>drift = Finite 0, pulse = Finite 0, date = Some (now e),
        mergedBumpPullRequests = None\<rparr> result"


section \<open>The query for yesterday's merged bump pull requests\<close>

text \<open>
  \<^verbatim>\<open>
  function getYesterday() {
    return new Date(new Date().setDate(new Date().getDate() - 1));
  }
  \<close>
  The receiver of \<^verbatim>\<open>setDate\<close> is created first (the reading \<open>now\<close>), the date whose
  day is read second (the reading \<open>now_later\<close>). \<^verbatim>\<open>getDate\<close> and \<^verbatim>\<open>setDate\<close> work on the
  local time (ECMAScript LocalTime); \<^verbatim>\<open>setDate(dt)\<close> keeps the local year, month and time
  of day, moves to day \<open>dt\<close> of that month (MakeDay, MakeDate) and converts the result to
  UTC with the offset in force at that local time.
\<close>

definition LocalTime :: "env \<Rightarrow> int \<Rightarrow> int" where
  "LocalTime e t = t + localTZA e t True"

definition UTCTime :: "env \<Rightarrow> int \<Rightarrow> int" where
  "UTCTime e t = t - localTZA e t False"

definition getDate :: "env \<Rightarrow> int \<Rightarrow> int" where
  "getDate e t = DateFromTime (LocalTime e t)"

definition setDate :: "env \<Rightarrow> int \<Rightarrow> int \<Rightarrow> int" where
  "setDate e t dt =
     UTCTime e (MakeDay (YearFromTime (LocalTime e t)) (MonthFromTime (LocalTime e t)) dt * msPerDay
                  + LocalTime e t mod msPerDay)"

definition getYesterday :: "env \<Rightarrow> int" where
  "getYesterday e = setDate e (now e) (getDate e (now_later e) - 1)"

text \<open>\<^verbatim>\<open>date.toISOString().split('T')[0]\<close>\<close>

definition isoDate :: "int \<Rightarrow> string" where
  "isoDate t = hd (js_split (CHR ''T'') (toISOString t))"

text \<open>
  \<^verbatim>\<open>
  export function getQueryForMergedBumpPullRequestsForYesterday(repository, path) {
    const yesterday = getYesterday().toISOString().split('T')[0];
    const pathToSearch = path !== '' ? `(${path})` : '';
    return `
      query {
        search(first: 100, query: "repo:${repository} is:pr is:merged merged:${yesterday}..${yesterday} in:title [BUMP] ${pathToSearch}", type: ISSUE) {
          nodes {
            ... on PullRequest {
              title
            }
          }
        }
      }`;
  }
  \<close>
  The lines of the template literal start in the source with 4, 6, 8, 10, 12, 10, 8, 6
  and 4 spaces (the quotation above is shifted as a whole); the literal begins with a
  line break and has none at its end.
\<close>

definition getQueryForMergedBumpPullRequestsForYesterday :: "env \<Rightarrow> string \<Rightarrow> string \<Rightarrow> string" where
  "getQueryForMergedBumpPullRequestsForYesterday e repo pth =
     (let yesterday = isoDate (getYesterday e);
          pathToSearch = (if pth \<noteq> [] then ''('' @ pth @ '')'' else [])
      in [CHR 0x0A] @ ''    query {'' @ [CHR 0x0A] @
         ''      search(first: 100, query: '' @ [CHR 0x22] @ ''repo:'' @ repo @
         '' is:pr is:merged merged:'' @ yesterday @ ''..'' @ yesterday @
         '' in:title [BUMP] '' @ pathToSearch @ [CHR 0x22] @ '', type: ISSUE) {'' @ [CHR 0x0A] @
         ''        nodes {'' @ [CHR 0x0A] @
         ''          ... on PullRequest {'' @ [CHR 0x0A] @
         ''            title'' @ [CHR 0x0A] @
         ''          }'' @ [CHR 0x0A] @
         ''        }'' @ [CHR 0x0A] @
         ''      }'' @ [CHR 0x0A] @
         ''    }'')"

text \<open>
  \<^verbatim>\<open>getMergedBumpPullRequestsForYesterday\<close> posts the query to the search endpoint and
  returns the number of nodes of the answer; a failed request throws.
\<close>

definition getMergedBumpPullRequestsForYesterday :: "env \<Rightarrow> string \<Rightarrow> string \<Rightarrow> error + nat" where
  "getMergedBumpPullRequestsForYesterday e repo pth =
     github e (getQueryForMergedBumpPullRequestsForYesterday e repo pth)"

section \<open>The metric computation (calculateRepository)\<close>

text \<open>\<^verbatim>\<open>process.chdir\<close> throws when the directory cannot be entered.\<close>

definition chdir :: "env \<Rightarrow> string \<Rightarrow> world \<Rightarrow> error + world" where
  "chdir e dir w = (if dir_exists e dir then Inr (w\<lparr>cwd := dir\<rparr>) else Inl (ChdirError dir))"

text \<open>
  \<^verbatim>\<open>
  async function calculateRepository(packagePath, packageManager) {
    const previousDir = cwd();
    chdir(packagePath);
    const result = await libyear(packageManager, { all: true });
    chdir(previousDir);
    return result;
  }
  \<close>
  The function is the same in both variants of the program. A statement that throws ends
  the function there: the result is the error together with the state reached.
\<close>

definition calculateRepository ::
    "env \<Rightarrow> string \<Rightarrow> string \<Rightarrow> world \<Rightarrow> (error + dependency list) \<times> world" where
  "calculateRepository e packagePath packageManager w =
     (let previousDir = cwd w in
      case chdir e packagePath w of
        Inl err \<Rightarrow> (Inl err, w)
      | Inr w1 \<Rightarrow>
          (case libyear e packageManager (cwd w1) of
             Inl err \<Rightarrow> (Inl err, w1)
           | Inr result \<Rightarrow>
               (case chdir e previousDir w1 of
                  Inl err \<Rightarrow> (Inl err, w1)
                | Inr w2 \<Rightarrow> (Inr result, w2))))"

section \<open>The history store (saveSummary, saveLastResult, saveResult)\<close>

text \<open>
  \<^verbatim>\<open>
  const yesterdaySummary = content.find((summary) => {
    return new Date(summary.date).toISOString().split('T')[0]
             === getYesterday().toISOString().split('T')[0];
  })
  if (yesterdaySummary) {
    yesterdaySummary.mergedBumpPullRequests = mergedBumpPullRequests;
  }
  \<close>
  \<^verbatim>\<open>find\<close> tests the entries in order and stops at the first that passes;
  \<^verbatim>\<open>toISOString\<close> throws a RangeError on an entry without a valid date. The entry found
  is updated in place.
\<close>

fun setYesterdaySummary :: "string \<Rightarrow> nat \<Rightarrow> summary list \<Rightarrow> error + summary list" where
  "setYesterdaySummary yesterday n [] = Inr []"
| "setYesterdaySummary yesterday n (s # ss) =
     (case date s of
        None \<Rightarrow> Inl RangeError
      | Some t \<Rightarrow>
          if isoDate t = yesterday then Inr (s\<lparr>mergedBumpPullRequests := Some n\<rparr> # ss)
          else (case setYesterdaySummary yesterday n ss of
                  Inl err \<Rightarrow> Inl err
                | Inr ss' \<Rightarrow> Inr (s # ss')))"

text \<open>
  \<^verbatim>\<open>
  async function saveSummary(line, summary, mergedBumpPullRequests) {
    const filePath = `data/history-${replaceRepositoryWithSafeChar(line)}.json`;
    try {
      await access(filePath, constants.F_OK);
    } catch (e) {
      await writeFile(filePath, JSON.stringify([]));
    }
    const content = JSON.parse(await readFile(filePath, {encoding: 'utf8'}));
    const yesterdaySummary = content.find(...)
    if (yesterdaySummary) { ... }
    content.push(summary);
    await writeFile(filePath, JSON.stringify(content));
  }
  \<close>
  Writing a file succeeds in the model. \<^verbatim>\<open>JSON.stringify\<close> writes a number that is NaN
  or infinite as \<^verbatim>\<open>null\<close>.
\<close>

definition jsonSummary :: "summary \<Rightarrow> summary" where
  "jsonSummary s = s\<lparr>drift := jsonNumber (drift s), pulse := jsonNumber (pulse s)\<rparr>"

definition jsonDependency :: "dependency \<Rightarrow> dependency" where
  "jsonDependency d =
     d\<lparr>dep_drift := map_option jsonNumber (dep_drift d),
       dep_pulse := map_option jsonNumber (dep_pulse d)\<rparr>"

definition initHistory :: "string \<Rightarrow> world \<Rightarrow> world" where
  "initHistory filePath w =
     (case files w filePath of
        None \<Rightarrow> w\<lparr>files := (files w)(filePath \<mapsto> Summaries [])\<rparr>
      | Some _ \<Rightarrow> w)"

definition saveSummary :: "env \<Rightarrow> string \<Rightarrow> summary \<Rightarrow> nat \<Rightarrow> world \<Rightarrow> (error + unit) \<times> world" where
  "saveSummary e line summ mergedBump w =
     (let filePath = ''data/history-'' @ replaceRepositoryWithSafeChar line @ ''.json'';
          w1 = initHistory filePath w
      in case files w1 filePath of
           Some (Summaries content) \<Rightarrow>
             (case setYesterdaySummary (isoDate (getYesterday e)) mergedBump content of
                Inl err \<Rightarrow> (Inl err, w1)
              | Inr content' \<Rightarrow>
                  (Inr (), w1\<lparr>files := (files w1)(filePath \<mapsto>
                             Summaries (map jsonSummary (content' @ [summ])))\<rparr>))
         | _ \<Rightarrow> (Inl (JsonError filePath), w1))"

text \<open>
  The variant of src/index.mjs has no enrichment and returns the file name:
  \<^verbatim>\<open>
  async function saveSummary(line, summary) {
    const fileName = `history-${line}.json`;
    const filePath = `data/${fileName}`;
    try {
      await access(filePath, constants.F_OK);
    } catch (e) {
      await writeFile(filePath, JSON.stringify([]));
    }
    const content = JSON.parse(await readFile(filePath, { encoding: 'utf8' }));
    content.push(summary);
    await writeFile(filePath, JSON.stringify(content));
    return fileName;
  }
  \<close>
\<close>

definition saveSummary_idx :: "string \<Rightarrow> summary \<Rightarrow> world \<Rightarrow> (error + string) \<times> world" where
  "saveSummary_idx line summ w =
     (let fileName = ''history-'' @ line @ ''.json'';
          filePath = ''data/'' @ fileName;
          w1 = initHistory filePath w
      in case files w1 filePath of
           Some (Summaries content) \<Rightarrow>
             (Inr fileName,
              w1\<lparr>files := (files w1)(filePath \<mapsto> Summaries (map jsonSummary (content @ [summ])))\<rparr>)
         | _ \<Rightarrow> (Inl (JsonError filePath), w1))"

text \<open>
  \<^verbatim>\<open>
  async function saveLastResult(line, result) {
    const filePath = `data/last-run-${replaceRepositoryWithSafeChar(line)}.json`;
    await writeFile(filePath, JSON.stringify(result));
  }
  async function saveResult(line, summary, result, mergedBumpPullRequests) {
    await saveSummary(line, summary, mergedBumpPullRequests);
    await saveLastResult(line, result);
  }
  \<close>
\<close>

definition saveLastResult :: "string \<Rightarrow> dependency list \<Rightarrow> world \<Rightarrow> world" where
  "saveLastResult line result w =
     w\<lparr>files := (files w)(''data/last-run-'' @ replaceRepositoryWithSafeChar line @ ''.json''
                            \<mapsto> Records (map jsonDependency result))\<rparr>"

definition saveResult ::
    "env \<Rightarrow> string \<Rightarrow> summary \<Rightarrow> dependency list \<Rightarrow> nat \<Rightarrow> world \<Rightarrow> (error + unit) \<times> world" where
  "saveResult e line summ result mergedBump w =
     (case saveSummary e line summ mergedBump w of
        (Inl err, w1) \<Rightarrow> (Inl err, w1)
      | (Inr _, w1) \<Rightarrow> (Inr (), saveLastResult line result w1))"

section \<open>The sequential phase of main\<close>

record installResult = repositoryEntry +
  packagePath :: string
  packageManager :: string

text \<open>
  \<^verbatim>\<open>
  for await (const { repository, path, packagePath, packageManager } of installResult) {
    const result = await calculateRepository(packagePath, packageManager);
    const summary = createSummary(result);
    const mergedBumpPullRequests = await getMergedBumpPullRequestsForYesterday(repository, path);
    await saveResult(`${repository}#${path}`, summary, result, mergedBumpPullRequests);
  }
  \<close>
  There is no handler around any of the four statements: the first that throws ends the
  loop and \<^verbatim>\<open>main\<close>.
\<close>

definition processEntry :: "env \<Rightarrow> installResult \<Rightarrow> world \<Rightarrow> (error + unit) \<times> world" where
  "processEntry e r w =
     (case calculateRepository e (packagePath r) (packageManager r) w of
        (Inl err, w1) \<Rightarrow> (Inl err, w1)
      | (Inr result, w1) \<Rightarrow>
          (let summ = createSummary e result in
           case getMergedBumpPullRequestsForYesterday e (repository r) (path r) of
             Inl err \<Rightarrow> (Inl err, w1)
           | Inr mergedBump \<Rightarrow>
               saveResult e (repository r @ ''#'' @ path r) summ result mergedBump w1))"

fun processEntries :: "env \<Rightarrow> installResult list \<Rightarrow> world \<Rightarrow> (error + unit) \<times> world" where
  "processEntries e [] w = (Inr (), w)"
| "processEntries e (r # rs) w =
     (case processEntry e r w of
        (Inl err, w1) \<Rightarrow> (Inl err, w1)
      | (Inr _, w1) \<Rightarrow> processEntries e rs w1)"

section \<open>Workspaces (cloneRepository, cloneRepositories)\<close>

text \<open>\<^verbatim>\<open>mkdtemp(prefix)\<close> makes a new directory named by the prefix and a random suffix.\<close>

definition mkdtemp :: "env \<Rightarrow> string \<Rightarrow> world \<Rightarrow> string \<times> world" where
  "mkdtemp e pre w = (pre @ tmp_suffix e (tmpdirs w), w\<lparr>tmpdirs := Suc (tmpdirs w)\<rparr>)"

text \<open>
  \<^verbatim>\<open>
  export async function cloneRepository(repository, simpleGit, env) {
    const tempRepositoryPath = await mkdtemp(`${tmpdir()}${sep}`);
    await simpleGit.clone(replaceRepositoryVariablesWithEnvVariables(repository, env),
                          tempRepositoryPath, { '--depth': 1 })
    return tempRepositoryPath;
  }
  \<close>
  The call of \<^verbatim>\<open>simpleGit.clone\<close> is recorded in \<open>clone_calls\<close>, whether it returns or
  throws. The variant of src/index.mjs clones \<^verbatim>\<open>repository\<close> as it is, which is this
  function with no variables.
\<close>

definition cloneRepository ::
    "env \<Rightarrow> string \<Rightarrow> (string \<times> string) list \<Rightarrow> world \<Rightarrow> (error + string) \<times> world" where
  "cloneRepository e repo variables w =
     (case mkdtemp e (tmpdir e @ sep) w of
        (tempRepositoryPath, w1) \<Rightarrow>
          (let url = replaceRepositoryVariablesWithEnvVariables repo variables;
               w2 = w1\<lparr>clone_calls := clone_calls w1 @
                      [\<lparr>clone_repository = repo, clone_url = url, clone_dir = tempRepositoryPath\<rparr>]\<rparr>
           in case git_clone e url tempRepositoryPath of
                Inl err \<Rightarrow> (Inl err, w2)
              | Inr _ \<Rightarrow> (Inr tempRepositoryPath, w2)))"

text \<open>
  \<^verbatim>\<open>
  async function cloneRepositories(lines) {
    const clonedRepositoriesPath = {};
    for await (const { repository } of lines) {
      if (!clonedRepositoriesPath[repository]) {
        const repositoryPath = await cloneRepository(repository, simpleGit(), process.env);
        clonedRepositoriesPath[repository] = repositoryPath;
      }
    }
    return clonedRepositoriesPath;
  }
  \<close>
  The object is a plain object: the map holds its own properties, and a name it does
  not hold is looked up in \<^verbatim>\<open>Object.prototype\<close>, whose properties are functions (and,
  for \<^verbatim>\<open>__proto__\<close>, the prototype itself), all of them truthy.
  \<^verbatim>\<open>!clonedRepositoriesPath[repository]\<close> therefore holds for an own property that is
  the empty string and for a name that is neither an own nor an inherited property.
\<close>

definition objectPrototypeKeys :: "string list" where
  "objectPrototypeKeys =
     [''constructor'', ''__defineGetter__'', ''__defineSetter__'', ''hasOwnProperty'',
      ''__lookupGetter__'', ''__lookupSetter__'', ''isPrototypeOf'', ''propertyIsEnumerable'',
      ''toString'', ''valueOf'', ''__proto__'', ''toLocaleString'']"

definition notCloned :: "(string \<Rightarrow> string option) \<Rightarrow> string \<Rightarrow> bool" where
  "notCloned clonedRepositoriesPath repo =
     (case clonedRepositoriesPath repo of
        None \<Rightarrow> repo \<notin> set objectPrototypeKeys
      | Some p \<Rightarrow> p = [])"

fun cloneRepositories_loop ::
    "env \<Rightarrow> repositoryEntry list \<Rightarrow> (string \<Rightarrow> string option) \<Rightarrow> world \<Rightarrow>
     (error + (string \<Rightarrow> string option)) \<times> world" where
  "cloneRepositories_loop e [] clonedRepositoriesPath w = (Inr clonedRepositoriesPath, w)"
| "cloneRepositories_loop e (l # ls) clonedRepositoriesPath w =
     (if notCloned clonedRepositoriesPath (repository l) then
        (case cloneRepository e (repository l) (process_env e) w of
           (Inl err, w1) \<Rightarrow> (Inl err, w1)
         | (Inr repositoryPath, w1) \<Rightarrow>
             cloneRepositories_loop e ls
               (clonedRepositoriesPath(repository l \<mapsto> repositoryPath)) w1)
      else cloneRepositories_loop e ls clonedRepositoriesPath w)"

definition cloneRepositories ::
    "env \<Rightarrow> repositoryEntry list \<Rightarrow> world \<Rightarrow> (error + (string \<Rightarrow> string option)) \<times> world" where
  "cloneRepositories e lines w = cloneRepositories_loop e lines Map.empty w"

section \<open>Sample inputs\<close>

text \<open>
  A run on 2023-02-01T00:00:00Z in UTC in which every external call succeeds, and the
  state at its start. They are the concrete inputs of the examples below.
\<close>

definition sample_env :: env where
  "sample_env =
     \<lparr>now = 1675209600000, now_later = 1675209600000, localTZA = (\<lambda>_ _. 0),
      dir_exists = (\<lambda>_. True),
      libyear = (\<lambda>_ _. Inr [\<lparr>dep_drift = Some (Finite 1), dep_pulse = Some (Finite 2)\<rparr>,
                              \<lparr>dep_drift = Some (Finite 3), dep_pulse = Some (Finite 1)\<rparr>,
                              \<lparr>dep_drift = None, dep_pulse = None\<rparr>]),
      github = (\<lambda>_. Inr 2), git_clone = (\<lambda>_ _. Inr ()),
      process_env = [(''FOO'', ''BAR'')], tmpdir = ''/tmp'',
      tmp_suffix = (\<lambda>n. replicate (Suc n) (CHR ''a''))\<rparr>"

definition sample_world :: world where
  "sample_world = \<lparr>cwd = ''/home/runner/work'', files = Map.empty, tmpdirs = 0, clone_calls = []\<rparr>"

definition sample_line :: string where
  "sample_line = ''https://github.com/1024pix/pix.git#api''"

definition sample_summary :: summary where
  "sample_summary = \<lparr>drift = Finite 4, pulse = Finite 3, date = Some 1675209600000, mergedBumpPullRequests = None\<rparr>"

definition sample_entry :: summary where
  "sample_entry = \<lparr>drift = Finite 5, pulse = Finite 1, date = Some 1675123200000, mergedBumpPullRequests = None\<rparr>"

text \<open>
  Two more entries of a history: one of 2023-01-30 that already carries a count, and a
  second one of 2023-01-31.
\<close>

definition sample_older :: summary where
  "sample_older =
     \<lparr>drift = Finite 6, pulse = Finite 2, date = Some 1675036800000, mergedBumpPullRequests = Some 7\<rparr>"

definition sample_entry2 :: summary where
  "sample_entry2 =
     \<lparr>drift = Finite 5, pulse = Finite 1, date = Some 1675166400000, mergedBumpPullRequests = Some 9\<rparr>"

text \<open>
  The offsets of the zone Europe/Paris in 2023: two hours from 2023-03-26T01:00Z to
  2023-10-29T01:00Z, one hour otherwise; a local time that the change in March skips or
  the change in October repeats is read with the offset before the change. The run
  \<open>paris_env\<close> is at 2023-10-30T00:30Z in that zone.
\<close>

definition parisTZA :: "int \<Rightarrow> bool \<Rightarrow> int" where
  "parisTZA t isUTC =
     (if isUTC then (if 1679792400000 \<le> t \<and> t < 1698541200000 then 7200000 else 3600000)
      else (if t < 1679792400000 + 7200000 then 3600000
            else if t < 1698541200000 + 7200000 then 7200000
            else 3600000))"

definition paris_env :: env where
  "paris_env = sample_env\<lparr>now := 1698625800000, now_later := 1698625800000, localTZA := parisTZA\<rparr>"

definition sample_install :: installResult where
  "sample_install =
     \<lparr>repository = ''https://github.com/1024pix/pix.git'', path = ''api'',
      packagePath = ''/tmp/a/api'', packageManager = ''npm''\<rparr>"

definition sample_lines :: "repositoryEntry list" where
  "sample_lines =
     [\<lparr>repository = ''https://$FOO@github.com/1024pix/pix.git'', path = ''api''\<rparr>,
      \<lparr>repository = ''https://$FOO@github.com/1024pix/pix.git'', path = ''mon-pix''\<rparr>]"

section \<open>Properties of the configuration line parser\<close>

lemma js_split_takeWhile:
  "js_split ch s =
     takeWhile (\<lambda>c. c \<noteq> ch) s #
       (case dropWhile (\<lambda>c. c \<noteq> ch) s of [] \<Rightarrow> [] | _ # r \<Rightarrow> js_split ch r)"
  by (induction s) (auto split: list.splits)

lemma js_split_hd: "hd (js_split ch s) = takeWhile (\<lambda>c. c \<noteq> ch) s"
  by (subst js_split_takeWhile) simp

text \<open>
  Claim C4, as the code has it. \<^const>\<open>parseRepositoryLine\<close> cuts the line at its
  \<open>#\<close> characters and keeps the first two pieces: the repository is the text before the
  first \<open>#\<close>, the path is the text between the first \<open>#\<close> and the second one (or the end
  of the line), and it is empty when the line has no \<open>#\<close>. Whatever follows a second \<open>#\<close>
  is dropped.
\<close>

theorem parseRepositoryLine_split:
  "parseRepositoryLine line =
     \<lparr>repository = takeWhile (\<lambda>c. c \<noteq> CHR ''#'') line,
      path = takeWhile (\<lambda>c. c \<noteq> CHR ''#'') (drop 1 (dropWhile (\<lambda>c. c \<noteq> CHR ''#'') line))\<rparr>"
proof (cases "dropWhile (\<lambda>c. c \<noteq> CHR ''#'') line")
  case Nil
  have "js_split (CHR ''#'') line = [takeWhile (\<lambda>c. c \<noteq> CHR ''#'') line]"
    by (subst js_split_takeWhile) (simp only: Nil list.case)
  then show ?thesis
    unfolding parseRepositoryLine_def by (simp only: Nil list.case drop_Nil takeWhile.simps)
next
  case (Cons h r)
  have "js_split (CHR ''#'') line = takeWhile (\<lambda>c. c \<noteq> CHR ''#'') line # js_split (CHR ''#'') r"
    by (subst js_split_takeWhile) (simp add: Cons)
  moreover have "js_split (CHR ''#'') r = takeWhile (\<lambda>c. c \<noteq> CHR ''#'') r #
       (case dropWhile (\<lambda>c. c \<noteq> CHR ''#'') r of [] \<Rightarrow> [] | _ # r' \<Rightarrow> js_split (CHR ''#'') r')"
    by (rule js_split_takeWhile)
  ultimately show ?thesis
    unfolding parseRepositoryLine_def by (simp add: Cons)
qed

text \<open>
  The path is not everything after the first \<open>#\<close>: of the line \<open>u#a#b\<close> the path is
  \<open>a\<close>, not \<open>a#b\<close>.
\<close>

theorem parseRepositoryLine_second_hash_counterexample:
  "path (parseRepositoryLine ''u#a#b'') \<noteq> drop 1 (dropWhile (\<lambda>c. c \<noteq> CHR ''#'') ''u#a#b'')"
  by (simp add: parseRepositoryLine_def)

section \<open>Properties of the safe name\<close>

lemma removeSchemes_no_colon: "CHR '':'' \<notin> set s \<Longrightarrow> removeSchemes s = s"
proof (induction s rule: removeSchemes.induct)
  case 1
  show ?case by simp
next
  case (2 c cs)
  have a: "\<not> prefix ''https://'' (c # cs)"
  proof
    assume "prefix ''https://'' (c # cs)"
    then have "set ''https://'' \<subseteq> set (c # cs)" by (rule set_mono_prefix)
    with 2(4) show False by auto
  qed
  have b: "\<not> prefix ''http://'' (c # cs)"
  proof
    assume "prefix ''http://'' (c # cs)"
    then have "set ''http://'' \<subseteq> set (c # cs)" by (rule set_mono_prefix)
    with 2(4) show False by auto
  qed
  have "removeSchemes (c # cs) = c # removeSchemes cs"
    using a b by (simp only: removeSchemes.simps if_False)
  moreover have "removeSchemes cs = cs"
    using 2(3)[OF a b] 2(4) by simp
  ultimately show ?case by simp
qed

lemma safeChar_not_special:
  "safeChar c \<noteq> CHR '':''" "safeChar c \<noteq> CHR ''/''" "safeChar c \<noteq> CHR ''.''" "safeChar c \<noteq> CHR ''#''"
  "CHR '':'' \<noteq> safeChar c" "CHR ''/'' \<noteq> safeChar c" "CHR ''.'' \<noteq> safeChar c" "CHR ''#'' \<noteq> safeChar c"
  by (auto simp: safeChar_def)

lemma safeChar_idem: "safeChar (safeChar c) = safeChar c"
  by (simp add: safeChar_def)

lemma safe_no_colon: "CHR '':'' \<notin> set (replaceRepositoryWithSafeChar s)"
  by (auto simp: replaceRepositoryWithSafeChar_def safeChar_not_special)







text \<open>
  Claim C10. Encoding a safe name again leaves it unchanged: the encoding contains none
  of the characters \<open>/\<close>, \<open>.\<close>, \<open>:\<close> and \<open>#\<close>, hence no scheme.
\<close>

theorem replaceRepositoryWithSafeChar_idempotent:
  "replaceRepositoryWithSafeChar (replaceRepositoryWithSafeChar s) = replaceRepositoryWithSafeChar s
   \<and> set (replaceRepositoryWithSafeChar s) \<inter> {CHR ''/'', CHR ''.'', CHR '':'', CHR ''#''} = {}
   \<and> (\<nexists>a b. replaceRepositoryWithSafeChar s = a @ ''http://'' @ b)
   \<and> (\<nexists>a b. replaceRepositoryWithSafeChar s = a @ ''https://'' @ b)"
proof -
  let ?t = "replaceRepositoryWithSafeChar s"
  have nc: "CHR '':'' \<notin> set ?t" by (rule safe_no_colon)
  have "replaceRepositoryWithSafeChar ?t = map safeChar ?t"
    by (simp add: replaceRepositoryWithSafeChar_def[of ?t] removeSchemes_no_colon[OF nc])
  also have "\<dots> = ?t"
    by (simp add: replaceRepositoryWithSafeChar_def[of s] safeChar_idem)
  finally have 1: "replaceRepositoryWithSafeChar ?t = ?t" .
  have 2: "set ?t \<inter> {CHR ''/'', CHR ''.'', CHR '':'', CHR ''#''} = {}"
    by (auto simp: replaceRepositoryWithSafeChar_def safeChar_not_special)
  have 3: "\<nexists>a b. ?t = a @ ''http://'' @ b"
  proof
    assume "\<exists>a b. ?t = a @ ''http://'' @ b"
    then obtain a b where "?t = a @ ''http://'' @ b" by blast
    then have "CHR '':'' \<in> set ?t" by simp
    with nc show False by contradiction
  qed
  have 4: "\<nexists>a b. ?t = a @ ''https://'' @ b"
  proof
    assume "\<exists>a b. ?t = a @ ''https://'' @ b"
    then obtain a b where "?t = a @ ''https://'' @ b" by blast
    then have "CHR '':'' \<in> set ?t" by simp
    with nc show False by contradiction
  qed
  from 1 2 3 4 show ?thesis by blast
qed

section \<open>Properties of the summary\<close>











section \<open>Properties of the metric computation\<close>

text \<open>
  Claim C2, as the code has it. When \<^const>\<open>calculateRepository\<close> returns a result, the
  working directory is again what it was before the call; this is what happens whenever
  both directories can be entered and the calculator returns. When the calculator throws,
  the error leaves the function before the second \<^verbatim>\<open>chdir\<close>: the working directory
  stays the package path.
\<close>

theorem calculateRepository_cwd:
  "(calculateRepository e pkg pm w = (Inr result, w') \<longrightarrow> cwd w' = cwd w)
   \<and> (dir_exists e pkg \<and> dir_exists e (cwd w) \<and> libyear e pm pkg = Inr result
        \<longrightarrow> calculateRepository e pkg pm w = (Inr result, w))
   \<and> (dir_exists e pkg \<and> libyear e pm pkg = Inl err
        \<longrightarrow> calculateRepository e pkg pm w = (Inl err, w\<lparr>cwd := pkg\<rparr>))"
  by (auto simp: calculateRepository_def chdir_def Let_def split: sum.splits if_splits)

theorem calculateRepository_cwd_witness:
  "calculateRepository sample_env ''/tmp/a/api'' ''npm'' sample_world
     = (Inr [\<lparr>dep_drift = Some (Finite 1), dep_pulse = Some (Finite 2)\<rparr>,
             \<lparr>dep_drift = Some (Finite 3), dep_pulse = Some (Finite 1)\<rparr>,
             \<lparr>dep_drift = None, dep_pulse = None\<rparr>], sample_world)
   \<and> cwd sample_world = ''/home/runner/work''
   \<and> calculateRepository (sample_env\<lparr>libyear := \<lambda>_ _. Inl (LibyearError ''registry unreachable'')\<rparr>)
        ''/tmp/a/api'' ''npm'' sample_world
     = (Inl (LibyearError ''registry unreachable''), sample_world\<lparr>cwd := ''/tmp/a/api''\<rparr>)"
proof -
  let ?r = "[\<lparr>dep_drift = Some (Finite 1), dep_pulse = Some (Finite 2)\<rparr>,
             \<lparr>dep_drift = Some (Finite 3), dep_pulse = Some (Finite 1)\<rparr>,
             \<lparr>dep_drift = None, dep_pulse = None\<rparr>]"
  let ?e = "sample_env\<lparr>libyear := \<lambda>_ _. Inl (LibyearError ''registry unreachable'')\<rparr>"
  have h1: "dir_exists sample_env ''/tmp/a/api'' \<and> dir_exists sample_env (cwd sample_world)
            \<and> libyear sample_env ''npm'' ''/tmp/a/api'' = Inr ?r"
    by (simp add: sample_env_def)
  have h2: "dir_exists ?e ''/tmp/a/api''
            \<and> libyear ?e ''npm'' ''/tmp/a/api'' = Inl (LibyearError ''registry unreachable'')"
    by (simp add: sample_env_def)
  have c: "cwd sample_world = ''/home/runner/work''" by (simp add: sample_world_def)
  from h1 h2 c
    calculateRepository_cwd[of sample_env "''/tmp/a/api''" "''npm''" sample_world ?r sample_world "LibyearError ''x''"]
    calculateRepository_cwd[of ?e "''/tmp/a/api''" "''npm''" sample_world ?r sample_world "LibyearError ''registry unreachable''"]
  show ?thesis by blast
qed

text \<open>
  After a computation that throws, the working directory is not the one before the call.
\<close>

theorem calculateRepository_failure_counterexample:
  "cwd (snd (calculateRepository
               (sample_env\<lparr>libyear := \<lambda>_ _. Inl (LibyearError ''registry unreachable'')\<rparr>)
               ''/tmp/a/api'' ''npm'' sample_world))
   \<noteq> cwd sample_world"
  by (simp add: calculateRepository_def chdir_def sample_env_def sample_world_def)

section \<open>Properties of the credential substitution\<close>

lemma getSubstitution_no_pattern:
  "\<not> hasPattern tpl \<Longrightarrow> getSubstitution m pre post tpl = tpl"
  by (induction m pre post tpl rule: getSubstitution.induct) auto

lemma replaceAll_from_no_pattern:
  "\<not> hasPattern tpl \<Longrightarrow> replaceAll_from pat tpl pre s = replaceAll_from pat tpl pre' s"
proof (induction pat tpl pre s arbitrary: pre' rule: replaceAll_from.induct)
  case (1 pat tpl pre)
  then show ?case by (simp add: getSubstitution_no_pattern)
next
  case (2 pat tpl pre c cs)
  show ?case
  proof (cases "pat = []")
    case True
    with 2(1)[OF True 2(4), of "pre' @ [c]"] 2(4) show ?thesis
      by (simp add: getSubstitution_no_pattern)
  next
    case False
    show ?thesis
    proof (cases "prefix pat (c # cs)")
      case True
      with False 2(2)[OF False True 2(4), of "pre' @ pat"] 2(4) show ?thesis
        by (simp add: getSubstitution_no_pattern)
    next
      case np: False
      with False 2(3)[OF False np 2(4), of "pre' @ [c]"] show ?thesis
        by simp
    qed
  qed
qed

lemma replaceAll_match:
  assumes "\<not> hasPattern v" and "pat \<noteq> []"
  shows "replaceAll pat v (pat @ r) = v @ replaceAll pat v r"
proof -
  obtain c cs where pr: "pat @ r = c # cs" using assms(2) by (cases pat) auto
  have pf: "prefix pat (c # cs)" using pr by (metis prefixI)
  have dr: "drop (length pat) (c # cs) = r" using pr by (metis append_eq_conv_conj)
  have "replaceAll_from pat v [] (c # cs)
          = getSubstitution pat [] r v @ replaceAll_from pat v ([] @ pat) r"
    using assms(2) pf dr by simp
  also have "\<dots> = v @ replaceAll_from pat v [] r"
    using getSubstitution_no_pattern[OF assms(1)] replaceAll_from_no_pattern[OF assms(1)]
    by metis
  finally show ?thesis unfolding replaceAll_def pr .
qed

lemma replaceAll_no_match:
  assumes "\<not> hasPattern v" and "pat \<noteq> []" and "\<not> prefix pat (c # cs)"
  shows "replaceAll pat v (c # cs) = c # replaceAll pat v cs"
proof -
  have "replaceAll_from pat v [] (c # cs) = c # replaceAll_from pat v ([] @ [c]) cs"
    using assms(2,3) by simp
  also have "\<dots> = c # replaceAll_from pat v [] cs"
    using replaceAll_from_no_pattern[OF assms(1)] by metis
  finally show ?thesis unfolding replaceAll_def .
qed

lemma replaceVariables_snoc:
  "replaceRepositoryVariablesWithEnvVariables repo (variables @ [(k, v)])
     = replaceAll (CHR ''$'' # k) v (replaceRepositoryVariablesWithEnvVariables repo variables)"
  by (simp add: replaceRepositoryVariablesWithEnvVariables_def)

text \<open>
  Claim C5, as the code has it. The substitution makes one \<^const>\<open>replaceAll\<close> pass per
  key, in the key order of the mapping, each pass on the output of the pass before it. A
  pass replaces, from left to right, every occurrence of the text \<open>$KEY\<close> by the key's
  value and does not scan again what it has inserted; the value is inserted verbatim when
  it contains none of the replacement patterns \<open>$$\<close>, \<open>$&\<close>, \<open>$`\<close> and \<open>$'\<close> (a value
  that contains a \<open>$NAME\<close> token is such a value). The passes after it scan the whole
  string, inserted values included: with the mapping \<open>{A: "$B", B: "x"}\<close> an occurrence
  of \<open>$A\<close> yields \<open>x\<close>; with \<open>{B: "x", A: "$B"}\<close> it yields \<open>$B\<close>; with
  \<open>{A: "$BC", B: "x"}\<close> it yields \<open>xC\<close>, and so it does when an earlier key \<open>BC\<close> is
  added; with \<open>{A: "$A"}\<close> it yields \<open>$A\<close>. A value with a replacement pattern is
  expanded: \<open>a$$b\<close> is inserted as \<open>a$b\<close>.
\<close>

theorem replaceRepositoryVariables_passes:
  "replaceRepositoryVariablesWithEnvVariables repo [] = repo
   \<and> replaceRepositoryVariablesWithEnvVariables repo (variables @ [(k, v)])
       = replaceAll (CHR ''$'' # k) v (replaceRepositoryVariablesWithEnvVariables repo variables)
   \<and> replaceAll (CHR ''$'' # k) v [] = []
   \<and> (\<not> hasPattern v \<longrightarrow>
        replaceAll (CHR ''$'' # k) v ((CHR ''$'' # k) @ r) = v @ replaceAll (CHR ''$'' # k) v r)
   \<and> (\<not> hasPattern v \<and> \<not> prefix (CHR ''$'' # k) (c # cs) \<longrightarrow>
        replaceAll (CHR ''$'' # k) v (c # cs) = c # replaceAll (CHR ''$'' # k) v cs)
   \<and> replaceRepositoryVariablesWithEnvVariables ''$A'' [(''A'', ''$B''), (''B'', ''x'')] = ''x''
   \<and> replaceRepositoryVariablesWithEnvVariables ''$A'' [(''B'', ''x''), (''A'', ''$B'')] = ''$B''
   \<and> replaceRepositoryVariablesWithEnvVariables ''$A'' [(''A'', ''$BC''), (''B'', ''x'')] = ''xC''
   \<and> replaceRepositoryVariablesWithEnvVariables ''$A''
         [(''BC'', ''y''), (''A'', ''$BC''), (''B'', ''x'')] = ''xC''
   \<and> replaceRepositoryVariablesWithEnvVariables ''$A'' [(''A'', ''$A'')] = ''$A''
   \<and> replaceRepositoryVariablesWithEnvVariables ''$A'' [(''A'', ''a$$b'')] = ''a$b''
   \<and> replaceRepositoryVariablesWithEnvVariables ''$A'' [(''A'', ''<$&>'')] = ''<$A>''"
proof -
  have 1: "replaceRepositoryVariablesWithEnvVariables repo [] = repo"
    by (simp add: replaceRepositoryVariablesWithEnvVariables_def)
  have 3: "replaceAll (CHR ''$'' # k) v [] = []"
    by (simp add: replaceAll_def)
  have 4: "\<not> hasPattern v \<longrightarrow>
        replaceAll (CHR ''$'' # k) v ((CHR ''$'' # k) @ r) = v @ replaceAll (CHR ''$'' # k) v r"
    using replaceAll_match[of v "CHR ''$'' # k" r] by blast
  have 5: "\<not> hasPattern v \<and> \<not> prefix (CHR ''$'' # k) (c # cs) \<longrightarrow>
        replaceAll (CHR ''$'' # k) v (c # cs) = c # replaceAll (CHR ''$'' # k) v cs"
    using replaceAll_no_match[of v "CHR ''$'' # k" c cs] by blast
  have 6: "replaceRepositoryVariablesWithEnvVariables ''$A'' [(''A'', ''$B''), (''B'', ''x'')] = ''x''"
    by (simp add: replaceRepositoryVariablesWithEnvVariables_def replaceAll_def)
  have 7: "replaceRepositoryVariablesWithEnvVariables ''$A'' [(''B'', ''x''), (''A'', ''$B'')] = ''$B''"
    by (simp add: replaceRepositoryVariablesWithEnvVariables_def replaceAll_def)
  have 8: "replaceRepositoryVariablesWithEnvVariables ''$A'' [(''A'', ''$BC''), (''B'', ''x'')] = ''xC''"
    by (simp add: replaceRepositoryVariablesWithEnvVariables_def replaceAll_def)
  have 9: "replaceRepositoryVariablesWithEnvVariables ''$A''
         [(''BC'', ''y''), (''A'', ''$BC''), (''B'', ''x'')] = ''xC''"
    by (simp add: replaceRepositoryVariablesWithEnvVariables_def replaceAll_def)
  have 10: "replaceRepositoryVariablesWithEnvVariables ''$A'' [(''A'', ''$A'')] = ''$A''"
    by (simp add: replaceRepositoryVariablesWithEnvVariables_def replaceAll_def)
  have 11: "replaceRepositoryVariablesWithEnvVariables ''$A'' [(''A'', ''a$$b'')] = ''a$b''"
    by (simp add: replaceRepositoryVariablesWithEnvVariables_def replaceAll_def)
  have 12: "replaceRepositoryVariablesWithEnvVariables ''$A'' [(''A'', ''<$&>'')] = ''<$A>''"
    by (simp add: replaceRepositoryVariablesWithEnvVariables_def replaceAll_def)
  from 1 replaceVariables_snoc 3 4 5 6 7 8 9 10 11 12 show ?thesis by blast
qed

theorem replaceRepositoryVariables_passes_witness:
  "replaceAll ''$A'' ''$BC'' ''$A@github.com'' = ''$BC'' @ replaceAll ''$A'' ''$BC'' ''@github.com''
   \<and> replaceAll ''$A'' ''$BC'' ''@github.com'' = CHR ''@'' # replaceAll ''$A'' ''$BC'' ''github.com''"
proof -
  have a: "\<not> hasPattern ''$BC''" by simp
  have b: "\<not> prefix ''$A'' ''@github.com''" by simp
  from a b
    replaceRepositoryVariables_passes[of "''''" "[]" "''A''" "''$BC''" "''@github.com''" "CHR ''@''" "''github.com''"]
  show ?thesis by simp
qed

text \<open>
  The example of the claim: with \<open>{A: "$B", B: "x"}\<close> an occurrence of \<open>$A\<close> does not
  yield the text \<open>$B\<close>.
\<close>

theorem replaceRepositoryVariables_recursion_counterexample:
  "replaceRepositoryVariablesWithEnvVariables ''$A'' [(''A'', ''$B''), (''B'', ''x'')] \<noteq> ''$B''"
  by (simp add: replaceRepositoryVariablesWithEnvVariables_def replaceAll_def)

section \<open>Properties of the dates\<close>

text \<open>
  The year computed for a day is the ECMAScript year (the last year that starts on or
  before the day), so the month and the date are those of the calendar: one day later
  the date is the one that follows in the Gregorian calendar. The date part of
  \<^const>\<open>toISOString\<close> is \<^const>\<open>isoDay\<close>.
\<close>

lemma MakeDay_roundtrip:
  "MakeDay (YearFromTime t) (MonthFromTime t) (DateFromTime t + k) = t div msPerDay + k"
  by (simp add: MakeDay_def DateFromTime_def DayWithinYear_def YearFromTime_def)

lemma int_div_bounds:
  fixes x d :: int
  assumes "0 < d"
  shows "d * (x div d) \<le> x" and "x < d * (x div d) + d"
proof -
  have "x = d * (x div d) + x mod d" by simp
  moreover have "0 \<le> x mod d" "x mod d < d" using assms by simp_all
  ultimately show "d * (x div d) \<le> x" and "x < d * (x div d) + d" by linarith+
qed

lemma DayFromYear_bounds:
  "400 * DayFromYear y \<le> 146097 * (y - 1970) + 589"
  "146097 * (y - 1970) - 506 \<le> 400 * DayFromYear y"
proof -
  define A where "A = (y - 1969) div 4"
  define B where "B = (y - 1901) div 100"
  define C where "C = (y - 1601) div 400"
  have a: "4 * A \<le> y - 1969" "y - 1969 < 4 * A + 4"
    unfolding A_def by (rule int_div_bounds, simp)+
  have b: "100 * B \<le> y - 1901" "y - 1901 < 100 * B + 100"
    unfolding B_def by (rule int_div_bounds, simp)+
  have c: "400 * C \<le> y - 1601" "y - 1601 < 400 * C + 400"
    unfolding C_def by (rule int_div_bounds, simp)+
  have d: "DayFromYear y = 365 * (y - 1970) + A - B + C"
    by (simp add: DayFromYear_def A_def B_def C_def)
  have e: "400 * DayFromYear y = 146000 * y + 400 * A - 400 * B + 400 * C - 287620000"
    by (simp add: d algebra_simps)
  have u: "146097 * (y - 1970) + 589 = 146097 * y - 287810501"
    by (simp add: algebra_simps)
  have l: "146097 * (y - 1970) - 506 = 146097 * y - 287811596"
    by (simp add: algebra_simps)
  show "400 * DayFromYear y \<le> 146097 * (y - 1970) + 589"
    unfolding e u using a b c by linarith
  show "146097 * (y - 1970) - 506 \<le> 400 * DayFromYear y"
    unfolding e l using a b c by linarith
qed

lemma YearFromDay_correct:
  "DayFromYear (YearFromDay z) \<le> z \<and> z < DayFromYear (YearFromDay z + 1)"
proof -
  define y0 where "y0 = 1970 + (400 * z) div 146097"
  define q where "q = (400 * z) div 146097"
  have q: "146097 * q \<le> 400 * z" "400 * z < 146097 * q + 146097"
    unfolding q_def by (rule int_div_bounds, simp)+
  have y0: "y0 = 1970 + q" by (simp add: y0_def q_def)
  have "400 * DayFromYear (y0 - 1) \<le> 146097 * (y0 - 1 - 1970) + 589"
    by (rule DayFromYear_bounds)
  also have "\<dots> = 146097 * q - 145508" by (simp add: y0 algebra_simps)
  finally have lo: "DayFromYear (y0 - 1) \<le> z" using q by linarith
  have "146097 * q + 291688 = 146097 * (y0 + 2 - 1970) - 506" by (simp add: y0 algebra_simps)
  also have "\<dots> \<le> 400 * DayFromYear (y0 + 2)" by (rule DayFromYear_bounds)
  finally have hi: "z < DayFromYear (y0 + 2)" using q by linarith
  have y: "YearFromDay z = (if DayFromYear (y0 + 1) \<le> z then y0 + 1
         else if DayFromYear y0 \<le> z then y0 else y0 - 1)"
    by (simp add: YearFromDay_def y0_def Let_def)
  show ?thesis
  proof (cases "DayFromYear (y0 + 1) \<le> z")
    case True
    then show ?thesis using hi y by (simp add: add.commute)
  next
    case False
    show ?thesis
    proof (cases "DayFromYear y0 \<le> z")
      case True
      then show ?thesis using False y by simp
    next
      case F2: False
      then show ?thesis using False y lo by simp
    qed
  qed
qed

lemma digit_in: "digit n \<in> set ''0123456789''"
proof -
  have "nat (n mod 10) < length ''0123456789''" by simp
  then show ?thesis unfolding digit_def by (rule nth_mem)
qed

lemma digit_not_T: "digit n \<noteq> CHR ''T''" "CHR ''T'' \<noteq> digit n"
  using digit_in[of n] by auto

lemma isoDay_no_T: "CHR ''T'' \<notin> set (isoDay t)"
  by (auto simp: isoDay_def isoYear_def pad2_def digit_not_T)

lemma takeWhile_append_stop: "c \<notin> set xs \<Longrightarrow> takeWhile (\<lambda>x. x \<noteq> c) (xs @ c # ys) = xs"
  by (induction xs) auto

lemma isoDate_isoDay: "isoDate t = isoDay t"
proof -
  have "toISOString t = isoDay t @ CHR ''T'' # (pad2 (t mod msPerDay div 3600000) @ '':'' @
     pad2 (t mod msPerDay div 60000 mod 60) @ '':'' @ pad2 (t mod msPerDay div 1000 mod 60) @
     ''.'' @ pad3 (t mod msPerDay mod 1000) @ ''Z'')"
    by (simp add: toISOString_def)
  then show ?thesis
    unfolding isoDate_def js_split_hd
    by (simp only: takeWhile_append_stop[OF isoDay_no_T])
qed

lemma div_step:
  fixes x k :: int
  assumes "0 < k"
  shows "(x + 1) div k = x div k + (if (x + 1) mod k = 0 then 1 else 0)"
proof -
  define q where "q = x div k"
  define r where "r = x mod k"
  have x: "x = q * k + r" by (simp add: q_def r_def)
  have r: "0 \<le> r" "r < k" using assms by (simp_all add: r_def)
  show ?thesis
  proof (cases "r + 1 = k")
    case True
    then have "x + 1 = (q + 1) * k" using x by (simp add: algebra_simps)
    then have "(x + 1) div k = q + 1" "(x + 1) mod k = 0" using assms by simp_all
    then show ?thesis by (simp add: q_def)
  next
    case False
    then have r1: "0 \<le> r + 1" "r + 1 < k" using r by linarith+
    have x1: "x + 1 = q * k + (r + 1)" using x by simp
    have "(q * k + (r + 1)) div k = q + (r + 1) div k" using assms by simp
    moreover have "(r + 1) div k = 0" using r1 by (simp add: div_pos_pos_trivial)
    moreover have "(q * k + (r + 1)) mod k = (r + 1) mod k" by simp
    moreover have "(r + 1) mod k = r + 1" using r1 by (simp add: mod_pos_pos_trivial)
    ultimately have "(x + 1) div k = q" "(x + 1) mod k = r + 1"
      unfolding x1 by simp_all
    then show ?thesis using r1 r by (simp add: q_def)
  qed
qed

lemma mod_shift:
  fixes y :: int
  shows "(y - 1968) mod 4 = y mod 4" "(y - 1900) mod 100 = y mod 100"
    "(y - 1600) mod 400 = y mod 400"
proof -
  have "y - 1968 = y + (- 492) * 4" by simp
  then show "(y - 1968) mod 4 = y mod 4" by (simp only: mod_mult_self1)
  have "y - 1900 = y + (- 19) * 100" by simp
  then show "(y - 1900) mod 100 = y mod 100" by (simp only: mod_mult_self1)
  have "y - 1600 = y + (- 4) * 400" by simp
  then show "(y - 1600) mod 400 = y mod 400" by (simp only: mod_mult_self1)
qed

lemma mod_coarser:
  fixes y :: int
  shows "y mod 100 = 0 \<Longrightarrow> y mod 4 = 0" "y mod 400 = 0 \<Longrightarrow> y mod 100 = 0"
proof -
  have a: "y mod 100 mod 4 = y mod 4" by (rule mod_mod_cancel) simp
  have b: "y mod 400 mod 100 = y mod 100" by (rule mod_mod_cancel) simp
  show "y mod 100 = 0 \<Longrightarrow> y mod 4 = 0" using a by simp
  show "y mod 400 = 0 \<Longrightarrow> y mod 100 = 0" using b by simp
qed

lemma DaysInYear: "DayFromYear (y + 1) = DayFromYear y + 365 + InLeapYear y"
proof -
  have a: "(y + 1 - 1969) div 4 = (y - 1969) div 4 + (if y mod 4 = 0 then 1 else 0)"
    using div_step[of 4 "y - 1969"] by (simp add: mod_shift)
  have b: "(y + 1 - 1901) div 100 = (y - 1901) div 100 + (if y mod 100 = 0 then 1 else 0)"
    using div_step[of 100 "y - 1901"] by (simp add: mod_shift)
  have c: "(y + 1 - 1601) div 400 = (y - 1601) div 400 + (if y mod 400 = 0 then 1 else 0)"
    using div_step[of 400 "y - 1601"] by (simp add: mod_shift)
  show ?thesis
    unfolding DayFromYear_def InLeapYear_def a b c
    using mod_coarser[of y] by auto
qed

lemma DayWithinYear_range:
  "0 \<le> DayWithinYear z \<and> DayWithinYear z < 365 + InLeapYear (YearFromDay z)"
  using YearFromDay_correct[of z] DaysInYear[of "YearFromDay z"]
  by (simp add: DayWithinYear_def)

lemma InLeapYear_cases: "InLeapYear y = 0 \<or> InLeapYear y = 1"
  by (simp add: InLeapYear_def)

lemma monthOfDay_range: "0 \<le> monthOfDay l d \<and> monthOfDay l d \<le> 11"
  by (simp add: monthOfDay_def)

lemma date_range:
  assumes "l = 0 \<or> l = 1" "0 \<le> d" "d < 365 + l"
  shows "1 \<le> d - monthStart l (monthOfDay l d) + 1 \<and> d - monthStart l (monthOfDay l d) + 1 \<le> 31"
  using assms by (auto simp: monthOfDay_def monthStart_def)

lemma calendar_ranges:
  "0 \<le> MonthFromTime t \<and> MonthFromTime t \<le> 11 \<and> 1 \<le> DateFromTime t \<and> DateFromTime t \<le> 31"
  using monthOfDay_range[of "InLeapYear (YearFromTime t)" "DayWithinYear (t div msPerDay)"]
    date_range[OF InLeapYear_cases[of "YearFromTime t"], of "DayWithinYear (t div msPerDay)"]
    DayWithinYear_range[of "t div msPerDay"]
  by (simp add: MonthFromTime_def DateFromTime_def YearFromTime_def)

lemma InLeapYear_leapYear: "InLeapYear y = (if leapYear y then 1 else 0)"
  unfolding InLeapYear_def leapYear_def by (cases "y mod 4 = 0"; cases "y mod 100 = 0"; cases "y mod 400 = 0") simp_all

lemma DayFromYear_step_le: "DayFromYear y \<le> DayFromYear (y + 1)"
  using DaysInYear[of y] InLeapYear_cases[of y] by auto

lemma DayFromYear_mono: "y \<le> y' \<Longrightarrow> DayFromYear y \<le> DayFromYear y'"
proof (induction y' rule: int_ge_induct)
  case base
  show ?case by simp
next
  case (step i)
  then show ?case using DayFromYear_step_le[of i] by simp
qed

lemma YearFromDay_unique:
  assumes "DayFromYear y \<le> z" "z < DayFromYear (y + 1)"
  shows "YearFromDay z = y"
proof (rule ccontr)
  assume ne: "YearFromDay z \<noteq> y"
  have c: "DayFromYear (YearFromDay z) \<le> z" "z < DayFromYear (YearFromDay z + 1)"
    using YearFromDay_correct[of z] by simp_all
  show False
  proof (cases "YearFromDay z < y")
    case True
    then have "DayFromYear (YearFromDay z + 1) \<le> DayFromYear y"
      by (intro DayFromYear_mono) simp
    with c assms show False by simp
  next
    case False
    with ne have "y + 1 \<le> YearFromDay z" by simp
    then have "DayFromYear (y + 1) \<le> DayFromYear (YearFromDay z)"
      by (rule DayFromYear_mono)
    with c assms show False by simp
  qed
qed

lemma in_year_step:
  assumes "l = 0 \<or> l = 1" "0 \<le> w" "w + 1 < 365 + l"
  shows "(monthOfDay l (w + 1) + 1, w + 1 - monthStart l (monthOfDay l (w + 1)) + 1)
           = (if w - monthStart l (monthOfDay l w) + 1
                  < (if monthOfDay l w + 1 = 2 then 28 + l
                     else if monthOfDay l w + 1 = 4 \<or> monthOfDay l w + 1 = 6
                             \<or> monthOfDay l w + 1 = 9 \<or> monthOfDay l w + 1 = 11 then 30 else 31)
              then (monthOfDay l w + 1, w - monthStart l (monthOfDay l w) + 1 + 1)
              else (monthOfDay l w + 1 + 1, 1))
         \<and> (w - monthStart l (monthOfDay l w) + 1
                  < (if monthOfDay l w + 1 = 2 then 28 + l
                     else if monthOfDay l w + 1 = 4 \<or> monthOfDay l w + 1 = 6
                             \<or> monthOfDay l w + 1 = 9 \<or> monthOfDay l w + 1 = 11 then 30 else 31)
             \<or> monthOfDay l w + 1 < 12)"
proof -
  consider "w < 30" | "w = 30" | "30 < w \<and> w < 58 + l" | "w = 58 + l" | "58 + l < w \<and> w < 89 + l"
    | "w = 89 + l" | "89 + l < w \<and> w < 119 + l" | "w = 119 + l" | "119 + l < w \<and> w < 150 + l"
    | "w = 150 + l" | "150 + l < w \<and> w < 180 + l" | "w = 180 + l" | "180 + l < w \<and> w < 211 + l"
    | "w = 211 + l" | "211 + l < w \<and> w < 242 + l" | "w = 242 + l" | "242 + l < w \<and> w < 272 + l"
    | "w = 272 + l" | "272 + l < w \<and> w < 303 + l" | "w = 303 + l" | "303 + l < w \<and> w < 333 + l"
    | "w = 333 + l" | "333 + l < w"
    by atomize_elim arith
  then show ?thesis
    using assms by cases (auto simp: monthOfDay_def monthStart_def)
qed

lemma year_end_step:
  assumes "l = 0 \<or> l = 1" "w + 1 = 365 + l"
  shows "monthOfDay l w + 1 = 12 \<and> w - monthStart l (monthOfDay l w) + 1 = 31"
  using assms by (auto simp: monthOfDay_def monthStart_def)

lemma civil_day_step:
  "(YearFromDay (z + 1),
    monthOfDay (InLeapYear (YearFromDay (z + 1))) (DayWithinYear (z + 1)) + 1,
    DayWithinYear (z + 1)
      - monthStart (InLeapYear (YearFromDay (z + 1)))
          (monthOfDay (InLeapYear (YearFromDay (z + 1))) (DayWithinYear (z + 1))) + 1)
   = civilNextDay (YearFromDay z,
        monthOfDay (InLeapYear (YearFromDay z)) (DayWithinYear z) + 1,
        DayWithinYear z
          - monthStart (InLeapYear (YearFromDay z))
              (monthOfDay (InLeapYear (YearFromDay z)) (DayWithinYear z)) + 1)"
proof -
  define Y where "Y = YearFromDay z"
  define l where "l = InLeapYear Y"
  define w where "w = DayWithinYear z"
  define m where "m = monthOfDay l w + 1"
  define d where "d = w - monthStart l (monthOfDay l w) + 1"
  have l01: "l = 0 \<or> l = 1" unfolding l_def by (rule InLeapYear_cases)
  have lL: "l = (if leapYear Y then 1 else 0)" unfolding l_def by (rule InLeapYear_leapYear)
  have wr: "0 \<le> w" "w < 365 + l"
    using DayWithinYear_range[of z] by (simp_all add: w_def l_def Y_def)
  have zY: "z = DayFromYear Y + w" by (simp add: w_def Y_def DayWithinYear_def)
  have dim: "daysInMonth Y k = (if k = 2 then 28 + l
                     else if k = 4 \<or> k = 6 \<or> k = 9 \<or> k = 11 then 30 else 31)" for k
    by (simp add: daysInMonth_def lL)
  have rhs: "civilNextDay (Y, m, d)
      = (if d < daysInMonth Y m then (Y, m, d + 1) else if m < 12 then (Y, m + 1, 1) else (Y + 1, 1, 1))"
    by (simp add: civilNextDay_def)
  show ?thesis
  proof (cases "w + 1 < 365 + l")
    case True
    have "DayFromYear Y \<le> z + 1" "z + 1 < DayFromYear (Y + 1)"
      using zY wr True DaysInYear[of Y] by (simp_all add: l_def)
    then have y1: "YearFromDay (z + 1) = Y" by (rule YearFromDay_unique)
    have w1: "DayWithinYear (z + 1) = w + 1"
      unfolding DayWithinYear_def y1 using zY by simp
    have s: "(monthOfDay l (w + 1) + 1, w + 1 - monthStart l (monthOfDay l (w + 1)) + 1)
               = (if d < daysInMonth Y m then (m, d + 1) else (m + 1, 1))"
      and t: "d < daysInMonth Y m \<or> m < 12"
      using in_year_step[OF l01 wr(1) True] unfolding m_def d_def dim by blast+
    have "(Y, monthOfDay l (w + 1) + 1, w + 1 - monthStart l (monthOfDay l (w + 1)) + 1)
            = civilNextDay (Y, m, d)"
      using s t unfolding rhs by (cases "d < daysInMonth Y m") auto
    then show ?thesis
      unfolding y1 w1 Y_def[symmetric] l_def[symmetric] w_def[symmetric] m_def d_def .
  next
    case False
    with wr have e: "w + 1 = 365 + l" by simp
    have d1: "DayFromYear (Y + 1) = z + 1"
      using zY e DaysInYear[of Y] by (simp add: l_def)
    have "DayFromYear (Y + 1) \<le> z + 1" "z + 1 < DayFromYear (Y + 1 + 1)"
      using d1 DaysInYear[of "Y + 1"] InLeapYear_cases[of "Y + 1"] by auto
    then have y1: "YearFromDay (z + 1) = Y + 1" by (rule YearFromDay_unique)
    have w1: "DayWithinYear (z + 1) = 0"
      unfolding DayWithinYear_def y1 using d1 by simp
    have m0: "monthOfDay (InLeapYear (Y + 1)) 0 = 0"
      using InLeapYear_cases[of "Y + 1"] by (auto simp: monthOfDay_def)
    have s0: "monthStart (InLeapYear (Y + 1)) 0 = 0"
      by (simp add: monthStart_def)
    have md: "m = 12" "d = 31"
      using year_end_step[OF l01 e] unfolding m_def d_def by auto
    have "(Y + 1, monthOfDay (InLeapYear (Y + 1)) 0 + 1,
           0 - monthStart (InLeapYear (Y + 1)) (monthOfDay (InLeapYear (Y + 1)) 0) + 1)
            = civilNextDay (Y, m, d)"
      unfolding rhs by (simp add: md m0 s0 dim)
    then show ?thesis
      unfolding y1 w1 Y_def[symmetric] l_def[symmetric] w_def[symmetric] m_def d_def .
  qed
qed

lemma day_number_step: "(t + msPerDay) div msPerDay = t div msPerDay + 1"
  by (simp add: msPerDay_def)

lemma civil_step:
  "(YearFromTime (t + msPerDay), MonthFromTime (t + msPerDay) + 1, DateFromTime (t + msPerDay))
     = civilNextDay (YearFromTime t, MonthFromTime t + 1, DateFromTime t)"
  unfolding YearFromTime_def MonthFromTime_def DateFromTime_def day_number_step
  by (rule civil_day_step)

lemma civil_epoch: "(YearFromTime 0, MonthFromTime 0 + 1, DateFromTime 0) = (1970, 1, 1)"
  by code_simp

lemma digit_ascii: "digit n = char_of (48 + n mod 10)"
proof -
  have "0 \<le> n mod 10" "n mod 10 < 10" by simp_all
  then have "n mod 10 = 0 \<or> n mod 10 = 1 \<or> n mod 10 = 2 \<or> n mod 10 = 3 \<or> n mod 10 = 4
    \<or> n mod 10 = 5 \<or> n mod 10 = 6 \<or> n mod 10 = 7 \<or> n mod 10 = 8 \<or> n mod 10 = 9"
    by arith
  then show ?thesis
    unfolding digit_def by (elim disjE) (simp_all add: char_of_def)
qed

section \<open>Properties of the history store\<close>

lemma setYesterdaySummary_none:
  "\<forall>s\<in>set H. \<exists>t. date s = Some t \<and> isoDate t \<noteq> y \<Longrightarrow> setYesterdaySummary y n H = Inr H"
  by (induction H) auto

lemma setYesterdaySummary_first:
  "\<forall>p\<in>set pre. \<exists>u. date p = Some u \<and> isoDate u \<noteq> y \<Longrightarrow> date s = Some t \<Longrightarrow> isoDate t = y \<Longrightarrow>
   setYesterdaySummary y n (pre @ s # post) = Inr (pre @ s\<lparr>mergedBumpPullRequests := Some n\<rparr> # post)"
  by (induction pre) auto

lemma setYesterdaySummary_undated:
  "\<forall>p\<in>set pre. \<exists>u. date p = Some u \<and> isoDate u \<noteq> y \<Longrightarrow> date s = None \<Longrightarrow>
   setYesterdaySummary y n (pre @ s # post) = Inl RangeError"
  by (induction pre) auto

lemma history_cases:
  "(\<forall>s\<in>set H. \<exists>t. date s = Some t \<and> isoDate t \<noteq> y)
   \<or> (\<exists>pre s post. H = pre @ s # post \<and> (\<forall>p\<in>set pre. \<exists>u. date p = Some u \<and> isoDate u \<noteq> y)
         \<and> (date s = None \<or> (\<exists>t. date s = Some t \<and> isoDate t = y)))"
proof (cases "\<forall>s\<in>set H. \<exists>t. date s = Some t \<and> isoDate t \<noteq> y")
  case True
  then show ?thesis by blast
next
  case False
  then have "\<exists>s\<in>set H. \<not> (\<exists>t. date s = Some t \<and> isoDate t \<noteq> y)" by blast
  then obtain pre s post where
    h: "H = pre @ s # post" "\<not> (\<exists>t. date s = Some t \<and> isoDate t \<noteq> y)"
       "\<forall>p\<in>set pre. \<not> \<not> (\<exists>u. date p = Some u \<and> isoDate u \<noteq> y)"
    using split_list_first_prop[of H "\<lambda>s. \<not> (\<exists>t. date s = Some t \<and> isoDate t \<noteq> y)"] by blast
  from h(2) have "date s = None \<or> (\<exists>t. date s = Some t \<and> isoDate t = y)"
    by (cases "date s") auto
  with h(1,3) show ?thesis by blast
qed

lemma setYesterdaySummary_keeps:
  "setYesterdaySummary y n H = Inr H' \<Longrightarrow>
   map (\<lambda>s. (drift s, pulse s, date s)) H' = map (\<lambda>s. (drift s, pulse s, date s)) H"
proof (induction H arbitrary: H')
  case Nil
  then show ?case by simp
next
  case (Cons s ss)
  then show ?case
    by (auto split: option.splits if_splits sum.splits)
qed

lemma setYesterdaySummary_dated:
  "\<forall>s\<in>set H. date s \<noteq> None \<Longrightarrow> \<exists>H'. setYesterdaySummary y n H = Inr H'"
  by (induction H) (auto split: option.splits sum.splits)

lemma saveSummary_idx_absent:
  "files w (''data/history-'' @ line @ ''.json'') = None \<Longrightarrow>
   saveSummary_idx line summ w =
     (Inr (''history-'' @ line @ ''.json''),
      w\<lparr>files := (files w)(''data/history-'' @ line @ ''.json'' \<mapsto> Summaries [jsonSummary summ])\<rparr>)"
  by (simp add: saveSummary_idx_def initHistory_def Let_def)

lemma saveSummary_idx_present:
  "files w (''data/history-'' @ line @ ''.json'') = Some (Summaries H) \<Longrightarrow>
   saveSummary_idx line summ w =
     (Inr (''history-'' @ line @ ''.json''),
      w\<lparr>files := (files w)(''data/history-'' @ line @ ''.json''
                             \<mapsto> Summaries (map jsonSummary (H @ [summ])))\<rparr>)"
  by (simp add: saveSummary_idx_def initHistory_def Let_def)

lemma saveSummary_absent:
  "files w (''data/history-'' @ replaceRepositoryWithSafeChar line @ ''.json'') = None \<Longrightarrow>
   saveSummary e line summ n w =
     (Inr (),
      w\<lparr>files := (files w)(''data/history-'' @ replaceRepositoryWithSafeChar line @ ''.json''
                             \<mapsto> Summaries [jsonSummary summ])\<rparr>)"
  by (simp add: saveSummary_def initHistory_def Let_def)

lemma saveSummary_present:
  "files w (''data/history-'' @ replaceRepositoryWithSafeChar line @ ''.json'') = Some (Summaries H) \<Longrightarrow>
   setYesterdaySummary (isoDate (getYesterday e)) n H = Inr H' \<Longrightarrow>
   saveSummary e line summ n w =
     (Inr (),
      w\<lparr>files := (files w)(''data/history-'' @ replaceRepositoryWithSafeChar line @ ''.json''
                             \<mapsto> Summaries (map jsonSummary (H' @ [summ])))\<rparr>)"
  by (simp add: saveSummary_def initHistory_def Let_def)

lemma saveSummary_throws:
  "files w (''data/history-'' @ replaceRepositoryWithSafeChar line @ ''.json'') = Some (Summaries H) \<Longrightarrow>
   setYesterdaySummary (isoDate (getYesterday e)) n H = Inl err \<Longrightarrow>
   saveSummary e line summ n w = (Inl err, w)"
  by (simp add: saveSummary_def initHistory_def Let_def)

lemma jsonSummary_fields:
  "drift (jsonSummary s) = jsonNumber (drift s) \<and> pulse (jsonSummary s) = jsonNumber (pulse s)
   \<and> date (jsonSummary s) = date s \<and> mergedBumpPullRequests (jsonSummary s) = mergedBumpPullRequests s"
  by (simp add: jsonSummary_def)

lemma jsonNumber_cases:
  "jsonNumber (Finite a) = Finite a \<and> jsonNumber (Infinity b) = Null \<and> jsonNumber NaN = Null
   \<and> jsonNumber Null = Null"
  by (simp add: jsonNumber_def)

lemma sample_yesterday_date: "isoDate (getYesterday sample_env) = ''2023-01-31''"
  by code_simp

lemma sample_entry_day: "isoDate 1675123200000 = ''2023-01-31''"
  by code_simp

lemma sample_entry2_day: "isoDate 1675166400000 = ''2023-01-31''"
  by code_simp

lemma sample_older_day: "isoDate 1675036800000 = ''2023-01-30''"
  by code_simp

lemma sample_line_safe:
  "replaceRepositoryWithSafeChar sample_line = ''github-com-1024pix-pix-git-api''"
  by (simp add: sample_line_def replaceRepositoryWithSafeChar_def safeChar_def)

lemma sample_enrich:
  "setYesterdaySummary (isoDate (getYesterday sample_env)) 2 [sample_entry]
     = Inr [sample_entry\<lparr>mergedBumpPullRequests := Some 2\<rparr>]"
  by (simp add: sample_yesterday_date sample_entry_day sample_entry_def)

lemma sample_json:
  "jsonSummary sample_summary = sample_summary" "jsonSummary sample_entry = sample_entry"
  "jsonSummary sample_older = sample_older" "jsonSummary sample_entry2 = sample_entry2"
  "jsonSummary (sample_entry\<lparr>mergedBumpPullRequests := Some 2\<rparr>)
     = sample_entry\<lparr>mergedBumpPullRequests := Some 2\<rparr>"
  by (simp_all add: jsonSummary_def jsonNumber_def sample_summary_def sample_entry_def
      sample_older_def sample_entry2_def)

text \<open>
  Claim C1, as the code has it. Saving a summary under a name that has no history file
  creates the history with the summary as its only entry. When the file holds a history
  \<open>H\<close>, the revision without enrichment (\<^const>\<open>saveSummary_idx\<close>) writes \<open>H\<close>
  followed by the summary. The revision with enrichment (\<^const>\<open>saveSummary\<close>) writes
  \<open>H'\<close> followed by the summary, where \<open>H'\<close> is \<open>H\<close> after
  \<^const>\<open>setYesterdaySummary\<close>. That step goes through the entries in order up to the
  first one that is not dated on another day than yesterday: when there is none, \<open>H'\<close>
  is \<open>H\<close>; when that entry is dated yesterday, it receives the number of merged bump pull
  requests and every other entry, before and after it, is as it was; when that entry has
  no date, the step throws and nothing is written. Every history is in one of the three
  cases. What is written is the JSON text: a drift or pulse that is not a finite number
  is written as \<open>null\<close>, the other fields are written as they are.
\<close>

theorem saveSummary_appends:
  "(files w (''data/history-'' @ line @ ''.json'') = None \<longrightarrow>
      saveSummary_idx line summ w =
        (Inr (''history-'' @ line @ ''.json''),
         w\<lparr>files := (files w)(''data/history-'' @ line @ ''.json''
                                \<mapsto> Summaries [jsonSummary summ])\<rparr>))
   \<and> (files w (''data/history-'' @ line @ ''.json'') = Some (Summaries H) \<longrightarrow>
      saveSummary_idx line summ w =
        (Inr (''history-'' @ line @ ''.json''),
         w\<lparr>files := (files w)(''data/history-'' @ line @ ''.json''
                                \<mapsto> Summaries (map jsonSummary (H @ [summ])))\<rparr>))
   \<and> (files w (''data/history-'' @ replaceRepositoryWithSafeChar line @ ''.json'') = None \<longrightarrow>
      saveSummary e line summ n w =
        (Inr (),
         w\<lparr>files := (files w)(''data/history-'' @ replaceRepositoryWithSafeChar line @ ''.json''
                                \<mapsto> Summaries [jsonSummary summ])\<rparr>))
   \<and> (files w (''data/history-'' @ replaceRepositoryWithSafeChar line @ ''.json'') = Some (Summaries H)
        \<and> setYesterdaySummary (isoDate (getYesterday e)) n H = Inr H' \<longrightarrow>
      saveSummary e line summ n w =
        (Inr (),
         w\<lparr>files := (files w)(''data/history-'' @ replaceRepositoryWithSafeChar line @ ''.json''
                                \<mapsto> Summaries (map jsonSummary (H' @ [summ])))\<rparr>)
      \<and> map (\<lambda>s. (drift s, pulse s, date s)) H' = map (\<lambda>s. (drift s, pulse s, date s)) H)
   \<and> (files w (''data/history-'' @ replaceRepositoryWithSafeChar line @ ''.json'') = Some (Summaries H)
        \<and> setYesterdaySummary (isoDate (getYesterday e)) n H = Inl err \<longrightarrow>
      saveSummary e line summ n w = (Inl err, w))
   \<and> ((\<forall>s\<in>set H. \<exists>t. date s = Some t \<and> isoDate t \<noteq> isoDate (getYesterday e)) \<longrightarrow>
        setYesterdaySummary (isoDate (getYesterday e)) n H = Inr H)
   \<and> ((\<forall>p\<in>set pre. \<exists>u. date p = Some u \<and> isoDate u \<noteq> isoDate (getYesterday e))
        \<and> date s = Some t \<and> isoDate t = isoDate (getYesterday e) \<longrightarrow>
        setYesterdaySummary (isoDate (getYesterday e)) n (pre @ s # post)
          = Inr (pre @ s\<lparr>mergedBumpPullRequests := Some n\<rparr> # post))
   \<and> ((\<forall>p\<in>set pre. \<exists>u. date p = Some u \<and> isoDate u \<noteq> isoDate (getYesterday e))
        \<and> date s = None \<longrightarrow>
        setYesterdaySummary (isoDate (getYesterday e)) n (pre @ s # post) = Inl RangeError)
   \<and> ((\<forall>s\<in>set H. \<exists>t. date s = Some t \<and> isoDate t \<noteq> isoDate (getYesterday e))
       \<or> (\<exists>pre s post. H = pre @ s # post
             \<and> (\<forall>p\<in>set pre. \<exists>u. date p = Some u \<and> isoDate u \<noteq> isoDate (getYesterday e))
             \<and> (date s = None \<or> (\<exists>t. date s = Some t \<and> isoDate t = isoDate (getYesterday e)))))
   \<and> ((\<forall>s\<in>set H. date s \<noteq> None) \<longrightarrow>
        (\<exists>H'. setYesterdaySummary (isoDate (getYesterday e)) n H = Inr H'))
   \<and> drift (jsonSummary s) = jsonNumber (drift s) \<and> pulse (jsonSummary s) = jsonNumber (pulse s)
   \<and> date (jsonSummary s) = date s
   \<and> mergedBumpPullRequests (jsonSummary s) = mergedBumpPullRequests s
   \<and> jsonNumber (Finite a) = Finite a \<and> jsonNumber (Infinity b) = Null \<and> jsonNumber NaN = Null
   \<and> jsonNumber Null = Null"
proof -
  let ?y = "isoDate (getYesterday e)"
  have c1: "files w (''data/history-'' @ line @ ''.json'') = None \<longrightarrow>
      saveSummary_idx line summ w =
        (Inr (''history-'' @ line @ ''.json''),
         w\<lparr>files := (files w)(''data/history-'' @ line @ ''.json''
                                \<mapsto> Summaries [jsonSummary summ])\<rparr>)"
    using saveSummary_idx_absent[of w line summ] by blast
  have c2: "files w (''data/history-'' @ line @ ''.json'') = Some (Summaries H) \<longrightarrow>
      saveSummary_idx line summ w =
        (Inr (''history-'' @ line @ ''.json''),
         w\<lparr>files := (files w)(''data/history-'' @ line @ ''.json''
                                \<mapsto> Summaries (map jsonSummary (H @ [summ])))\<rparr>)"
    using saveSummary_idx_present[of w line H summ] by blast
  have c3: "files w (''data/history-'' @ replaceRepositoryWithSafeChar line @ ''.json'') = None \<longrightarrow>
      saveSummary e line summ n w =
        (Inr (),
         w\<lparr>files := (files w)(''data/history-'' @ replaceRepositoryWithSafeChar line @ ''.json''
                                \<mapsto> Summaries [jsonSummary summ])\<rparr>)"
    using saveSummary_absent[of w line e summ n] by blast
  have c4: "files w (''data/history-'' @ replaceRepositoryWithSafeChar line @ ''.json'') = Some (Summaries H)
        \<and> setYesterdaySummary ?y n H = Inr H' \<longrightarrow>
      saveSummary e line summ n w =
        (Inr (),
         w\<lparr>files := (files w)(''data/history-'' @ replaceRepositoryWithSafeChar line @ ''.json''
                                \<mapsto> Summaries (map jsonSummary (H' @ [summ])))\<rparr>)
      \<and> map (\<lambda>s. (drift s, pulse s, date s)) H' = map (\<lambda>s. (drift s, pulse s, date s)) H"
    using saveSummary_present[of w line H e n H' summ] setYesterdaySummary_keeps[of ?y n H H']
    by blast
  have c5: "files w (''data/history-'' @ replaceRepositoryWithSafeChar line @ ''.json'') = Some (Summaries H)
        \<and> setYesterdaySummary ?y n H = Inl err \<longrightarrow>
      saveSummary e line summ n w = (Inl err, w)"
    using saveSummary_throws[of w line H e n err summ] by blast
  have c6: "(\<forall>s\<in>set H. \<exists>t. date s = Some t \<and> isoDate t \<noteq> ?y) \<longrightarrow>
        setYesterdaySummary ?y n H = Inr H"
    using setYesterdaySummary_none[of H ?y n] by blast
  have c7: "(\<forall>p\<in>set pre. \<exists>u. date p = Some u \<and> isoDate u \<noteq> ?y)
        \<and> date s = Some t \<and> isoDate t = ?y \<longrightarrow>
        setYesterdaySummary ?y n (pre @ s # post)
          = Inr (pre @ s\<lparr>mergedBumpPullRequests := Some n\<rparr> # post)"
    using setYesterdaySummary_first[of pre ?y s t n post] by blast
  have c8: "(\<forall>p\<in>set pre. \<exists>u. date p = Some u \<and> isoDate u \<noteq> ?y)
        \<and> date s = None \<longrightarrow>
        setYesterdaySummary ?y n (pre @ s # post) = Inl RangeError"
    using setYesterdaySummary_undated[of pre ?y s n post] by blast
  have c9: "(\<forall>s\<in>set H. \<exists>t. date s = Some t \<and> isoDate t \<noteq> ?y)
       \<or> (\<exists>pre s post. H = pre @ s # post
             \<and> (\<forall>p\<in>set pre. \<exists>u. date p = Some u \<and> isoDate u \<noteq> ?y)
             \<and> (date s = None \<or> (\<exists>t. date s = Some t \<and> isoDate t = ?y)))"
    by (rule history_cases)
  have c10: "(\<forall>s\<in>set H. date s \<noteq> None) \<longrightarrow> (\<exists>H'. setYesterdaySummary ?y n H = Inr H')"
    using setYesterdaySummary_dated[of H ?y n] by blast
  have c11: "drift (jsonSummary s) = jsonNumber (drift s) \<and> pulse (jsonSummary s) = jsonNumber (pulse s)
   \<and> date (jsonSummary s) = date s
   \<and> mergedBumpPullRequests (jsonSummary s) = mergedBumpPullRequests s
   \<and> jsonNumber (Finite a) = Finite a \<and> jsonNumber (Infinity b) = Null \<and> jsonNumber NaN = Null
   \<and> jsonNumber Null = Null"
    by (simp add: jsonSummary_def jsonNumber_def)
  show ?thesis
    apply (rule conjI, rule c1)
    apply (rule conjI, rule c2)
    apply (rule conjI, rule c3)
    apply (rule conjI, rule c4)
    apply (rule conjI, rule c5)
    apply (rule conjI, rule c6)
    apply (rule conjI, rule c7)
    apply (rule conjI, rule c8)
    apply (rule conjI, rule c9)
    apply (rule conjI, rule c10)
    apply (rule c11)
    done
qed

theorem saveSummary_appends_witness:
  "saveSummary_idx ''github-com-1024pix-pix-git-api'' sample_summary sample_world
     = (Inr ''history-github-com-1024pix-pix-git-api.json'',
        sample_world\<lparr>files := (files sample_world)(''data/history-github-com-1024pix-pix-git-api.json''
                                    \<mapsto> Summaries [sample_summary])\<rparr>)
   \<and> saveSummary_idx ''github-com-1024pix-pix-git-api'' sample_summary
        (sample_world\<lparr>files := [''data/history-github-com-1024pix-pix-git-api.json''
                                   \<mapsto> Summaries [sample_older, sample_entry, sample_entry2]]\<rparr>)
     = (Inr ''history-github-com-1024pix-pix-git-api.json'',
        sample_world\<lparr>files := [''data/history-github-com-1024pix-pix-git-api.json''
                                   \<mapsto> Summaries [sample_older, sample_entry, sample_entry2,
                                                 sample_summary]]\<rparr>)
   \<and> saveSummary sample_env sample_line sample_summary 2 sample_world
     = (Inr (),
        sample_world\<lparr>files := (files sample_world)(''data/history-github-com-1024pix-pix-git-api.json''
                                    \<mapsto> Summaries [sample_summary])\<rparr>)
   \<and> saveSummary sample_env sample_line sample_summary 2
        (sample_world\<lparr>files := [''data/history-github-com-1024pix-pix-git-api.json''
                                   \<mapsto> Summaries [sample_older, sample_entry, sample_entry2]]\<rparr>)
     = (Inr (),
        sample_world\<lparr>files := [''data/history-github-com-1024pix-pix-git-api.json''
                                   \<mapsto> Summaries [sample_older,
                                                 sample_entry\<lparr>mergedBumpPullRequests := Some 2\<rparr>,
                                                 sample_entry2, sample_summary]]\<rparr>)
   \<and> saveSummary sample_env sample_line sample_summary 2
        (sample_world\<lparr>files := [''data/history-github-com-1024pix-pix-git-api.json''
                                   \<mapsto> Summaries [sample_older, sample_entry\<lparr>date := None\<rparr>,
                                                 sample_entry2]]\<rparr>)
     = (Inl RangeError,
        sample_world\<lparr>files := [''data/history-github-com-1024pix-pix-git-api.json''
                                   \<mapsto> Summaries [sample_older, sample_entry\<lparr>date := None\<rparr>,
                                                 sample_entry2]]\<rparr>)
   \<and> setYesterdaySummary (isoDate (getYesterday sample_env)) 2 [sample_older] = Inr [sample_older]
   \<and> (\<exists>H'. setYesterdaySummary (isoDate (getYesterday sample_env)) 2
               [sample_older, sample_entry, sample_entry2] = Inr H')"
proof -
  let ?p = "''data/history-github-com-1024pix-pix-git-api.json''"
  let ?name = "''github-com-1024pix-pix-git-api''"
  let ?y = "isoDate (getYesterday sample_env)"
  let ?H = "[sample_older, sample_entry, sample_entry2]"
  let ?H' = "[sample_older, sample_entry\<lparr>mergedBumpPullRequests := Some 2\<rparr>, sample_entry2]"
  let ?U = "[sample_older, sample_entry\<lparr>date := None\<rparr>, sample_entry2]"
  let ?w = "sample_world\<lparr>files := [?p \<mapsto> Summaries ?H]\<rparr>"
  let ?wu = "sample_world\<lparr>files := [?p \<mapsto> Summaries ?U]\<rparr>"
  have p: "''data/history-'' @ ?name @ ''.json'' = ?p" by simp
  have q: "''history-'' @ ?name @ ''.json'' = ''history-github-com-1024pix-pix-git-api.json''"
    by simp
  have a: "files sample_world ?p = None" by (simp add: sample_world_def)
  have b: "files ?w ?p = Some (Summaries ?H)" by simp
  have bu: "files ?wu ?p = Some (Summaries ?U)" by simp
  have u: "?w\<lparr>files := (files ?w)(?p \<mapsto> c)\<rparr> = sample_world\<lparr>files := [?p \<mapsto> c]\<rparr>" for c
    by simp
  have older: "\<forall>p\<in>set [sample_older]. \<exists>u. date p = Some u \<and> isoDate u \<noteq> ?y"
    by (simp add: sample_older_def sample_older_day sample_yesterday_date)
  have entry: "date sample_entry = Some 1675123200000 \<and> isoDate 1675123200000 = ?y"
    by (simp add: sample_entry_def sample_entry_day sample_yesterday_date)
  have undated: "date (sample_entry\<lparr>date := None\<rparr>) = None" by simp
  have dated: "\<forall>s\<in>set ?H. date s \<noteq> None"
    by (simp add: sample_older_def sample_entry_def sample_entry2_def)
  have hs: "[sample_older] @ sample_entry # [sample_entry2] = ?H"
    "[sample_older] @ sample_entry\<lparr>mergedBumpPullRequests := Some 2\<rparr> # [sample_entry2] = ?H'"
    "[sample_older] @ sample_entry\<lparr>date := None\<rparr> # [sample_entry2] = ?U"
    by simp_all
  have js: "map jsonSummary (?H @ [sample_summary]) = ?H @ [sample_summary]"
    "map jsonSummary (?H' @ [sample_summary]) = ?H' @ [sample_summary]"
    "[jsonSummary sample_summary] = [sample_summary]"
    by (simp_all add: sample_json)
  note t1 = saveSummary_appends[where w = sample_world and line = ?name and summ = sample_summary
      and H = "[sample_older]" and e = sample_env and n = 2, unfolded p q js]
  note t2 = saveSummary_appends[where w = ?w and line = ?name and summ = sample_summary
      and H = ?H and e = sample_env and n = 2, unfolded p q js]
  note t3 = saveSummary_appends[where w = sample_world and line = sample_line
      and summ = sample_summary and e = sample_env and n = 2, unfolded sample_line_safe p js]
  note t4 = saveSummary_appends[where w = ?w and line = sample_line and summ = sample_summary
      and H = ?H and e = sample_env and n = 2 and H' = ?H' and pre = "[sample_older]"
      and s = sample_entry and t = 1675123200000 and post = "[sample_entry2]",
      unfolded sample_line_safe p hs js]
  note t5 = saveSummary_appends[where w = ?wu and line = sample_line and summ = sample_summary
      and H = ?U and e = sample_env and n = 2 and err = RangeError and pre = "[sample_older]"
      and s = "sample_entry\<lparr>date := None\<rparr>" and post = "[sample_entry2]",
      unfolded sample_line_safe p hs]
  have 1: "saveSummary_idx ?name sample_summary sample_world
     = (Inr ''history-github-com-1024pix-pix-git-api.json'',
        sample_world\<lparr>files := (files sample_world)(?p \<mapsto> Summaries [sample_summary])\<rparr>)"
    using t1 a by blast
  have 2: "saveSummary_idx ?name sample_summary ?w
     = (Inr ''history-github-com-1024pix-pix-git-api.json'',
        ?w\<lparr>files := (files ?w)(?p \<mapsto> Summaries (?H @ [sample_summary]))\<rparr>)"
    using t2 b by blast
  have 3: "saveSummary sample_env sample_line sample_summary 2 sample_world
     = (Inr (), sample_world\<lparr>files := (files sample_world)(?p \<mapsto> Summaries [sample_summary])\<rparr>)"
    using t3 a by blast
  have e4: "setYesterdaySummary ?y 2 ?H = Inr ?H'"
    using t4 older entry by blast
  have 4: "saveSummary sample_env sample_line sample_summary 2 ?w
     = (Inr (), ?w\<lparr>files := (files ?w)(?p \<mapsto> Summaries (?H' @ [sample_summary]))\<rparr>)"
    using t4 b e4 by blast
  have e5: "setYesterdaySummary ?y 2 ?U = Inl RangeError"
    using t5 older undated by blast
  have 5: "saveSummary sample_env sample_line sample_summary 2 ?wu = (Inl RangeError, ?wu)"
    using t5 bu e5 by blast
  have 6: "setYesterdaySummary ?y 2 [sample_older] = Inr [sample_older]"
    using t1 older by blast
  have 7: "\<exists>H'. setYesterdaySummary ?y 2 ?H = Inr H'"
    using t2 dated by blast
  show ?thesis
    using 1 2 3 4 5 6 7 unfolding u by simp
qed

text \<open>
  After the enrichment the stored sequence is not the old history followed by the new
  summary: the entry of the day before has changed.
\<close>

theorem saveSummary_enrichment_counterexample:
  "files (snd (saveSummary sample_env sample_line sample_summary 2
                 (sample_world\<lparr>files := [''data/history-github-com-1024pix-pix-git-api.json''
                                            \<mapsto> Summaries [sample_entry]]\<rparr>)))
         ''data/history-github-com-1024pix-pix-git-api.json''
   \<noteq> Some (Summaries ([sample_entry] @ [sample_summary]))"
proof -
  let ?p = "''data/history-github-com-1024pix-pix-git-api.json''"
  let ?w = "sample_world\<lparr>files := [?p \<mapsto> Summaries [sample_entry]]\<rparr>"
  have "files ?w (''data/history-'' @ replaceRepositoryWithSafeChar sample_line @ ''.json'')
          = Some (Summaries [sample_entry])"
    by (simp add: sample_line_safe)
  from saveSummary_present[OF this sample_enrich]
  have "files (snd (saveSummary sample_env sample_line sample_summary 2 ?w)) ?p
          = Some (Summaries [sample_entry\<lparr>mergedBumpPullRequests := Some 2\<rparr>, sample_summary])"
    by (simp add: sample_line_safe sample_json)
  moreover have "sample_entry\<lparr>mergedBumpPullRequests := Some 2\<rparr> \<noteq> sample_entry"
    by (simp add: sample_entry_def)
  ultimately show ?thesis by simp
qed

section \<open>Properties of the sequential phase\<close>

lemma calculateRepository_files:
  "calculateRepository e dir pm w = (res, w') \<Longrightarrow> files w' = files w"
  by (auto simp: calculateRepository_def chdir_def Let_def split: sum.splits if_splits)

lemma processEntry_fetch_fails:
  "calculateRepository e (packagePath r) (packageManager r) w = (Inr result, w1) \<Longrightarrow>
   getMergedBumpPullRequestsForYesterday e (repository r) (path r) = Inl err \<Longrightarrow>
   processEntry e r w = (Inl err, w1)"
  by (simp add: processEntry_def)

lemma processEntries_append:
  "processEntries e (rs1 @ rs2) w =
     (case processEntries e rs1 w of
        (Inl err, w1) \<Rightarrow> (Inl err, w1)
      | (Inr _, w1) \<Rightarrow> processEntries e rs2 w1)"
  by (induction rs1 arbitrary: w) (auto split: prod.splits sum.splits)

text \<open>
  Claim C3, as the code has it. When the fetch of the merged bump pull requests throws
  for an entry, the loop of \<^verbatim>\<open>main\<close> (\<^const>\<open>processEntries\<close>) ends with that error:
  \<^const>\<open>saveResult\<close> is not performed for the entry, so the files are as the entries
  before it left them, and no later entry is processed.
\<close>

theorem fetch_failure_stops_main:
  "processEntries e rs1 w = (Inr (), w1)
   \<and> calculateRepository e (packagePath r) (packageManager r) w1 = (Inr result, w2)
   \<and> getMergedBumpPullRequestsForYesterday e (repository r) (path r) = Inl err
   \<longrightarrow> processEntries e (rs1 @ r # rs2) w = (Inl err, w2) \<and> files w2 = files w1"
proof (intro impI, elim conjE)
  assume a: "processEntries e rs1 w = (Inr (), w1)"
    and b: "calculateRepository e (packagePath r) (packageManager r) w1 = (Inr result, w2)"
    and c: "getMergedBumpPullRequestsForYesterday e (repository r) (path r) = Inl err"
  have "processEntry e r w1 = (Inl err, w2)" using b c by (rule processEntry_fetch_fails)
  then have "processEntries e (r # rs2) w1 = (Inl err, w2)" by simp
  then have "processEntries e (rs1 @ r # rs2) w = (Inl err, w2)"
    by (simp add: processEntries_append a)
  moreover have "files w2 = files w1" using b by (rule calculateRepository_files)
  ultimately show "processEntries e (rs1 @ r # rs2) w = (Inl err, w2) \<and> files w2 = files w1"
    by simp
qed

theorem fetch_failure_stops_main_witness:
  "processEntries (sample_env\<lparr>github := \<lambda>_. Inl (RequestError ''401'')\<rparr>)
     ([] @ sample_install # []) sample_world
     = (Inl (RequestError ''401''), sample_world)
   \<and> files sample_world = files sample_world"
proof -
  let ?e = "sample_env\<lparr>github := \<lambda>_. Inl (RequestError ''401'')\<rparr>"
  let ?r = "[\<lparr>dep_drift = Some (Finite 1), dep_pulse = Some (Finite 2)\<rparr>,
             \<lparr>dep_drift = Some (Finite 3), dep_pulse = Some (Finite 1)\<rparr>,
             \<lparr>dep_drift = None, dep_pulse = None\<rparr>]"
  have a: "processEntries ?e [] sample_world = (Inr (), sample_world)" by simp
  have b: "calculateRepository ?e (packagePath sample_install) (packageManager sample_install)
             sample_world = (Inr ?r, sample_world)"
    by (simp add: calculateRepository_def chdir_def sample_env_def sample_world_def)
  have c: "getMergedBumpPullRequestsForYesterday ?e (repository sample_install) (path sample_install)
             = Inl (RequestError ''401'')"
    by (simp add: getMergedBumpPullRequestsForYesterday_def)
  from a b c
    fetch_failure_stops_main[of ?e "[]" sample_world sample_world sample_install ?r sample_world
      "RequestError ''401''" "[]"]
  show ?thesis by blast
qed

text \<open>
  A run of one entry whose fetch throws leaves no history file for the entry.
\<close>

theorem fetch_failure_counterexample:
  "getMergedBumpPullRequestsForYesterday (sample_env\<lparr>github := \<lambda>_. Inl (RequestError ''401'')\<rparr>)
     (repository sample_install) (path sample_install) = Inl (RequestError ''401'')
   \<and> files (snd (processEntries (sample_env\<lparr>github := \<lambda>_. Inl (RequestError ''401'')\<rparr>)
                   [sample_install] sample_world))
        ''data/history-github-com-1024pix-pix-git-api.json'' = None"
proof -
  let ?e = "sample_env\<lparr>github := \<lambda>_. Inl (RequestError ''401'')\<rparr>"
  let ?r = "[\<lparr>dep_drift = Some (Finite 1), dep_pulse = Some (Finite 2)\<rparr>,
             \<lparr>dep_drift = Some (Finite 3), dep_pulse = Some (Finite 1)\<rparr>,
             \<lparr>dep_drift = None, dep_pulse = None\<rparr>]"
  have b: "calculateRepository ?e (packagePath sample_install) (packageManager sample_install)
             sample_world = (Inr ?r, sample_world)"
    by (simp add: calculateRepository_def chdir_def sample_env_def sample_world_def)
  have c: "getMergedBumpPullRequestsForYesterday ?e (repository sample_install) (path sample_install)
             = Inl (RequestError ''401'')"
    by (simp add: getMergedBumpPullRequestsForYesterday_def)
  have "processEntry ?e sample_install sample_world = (Inl (RequestError ''401''), sample_world)"
    using b c by (rule processEntry_fetch_fails)
  then have "processEntries ?e [sample_install] sample_world
               = (Inl (RequestError ''401''), sample_world)"
    by simp
  then show ?thesis using c by (simp add: sample_world_def)
qed

section \<open>Properties of the workspaces\<close>

lemma cloneRepository_Inr:
  assumes "cloneRepository e repo variables w = (Inr p, w1)"
  shows "clone_calls w1 = clone_calls w @
           [\<lparr>clone_repository = repo,
             clone_url = replaceRepositoryVariablesWithEnvVariables repo variables,
             clone_dir = p\<rparr>]
         \<and> p \<noteq> []"
  using assms
  by (auto simp: cloneRepository_def mkdtemp_def sep_def Let_def split: sum.splits)

lemma cloneRepository_without_variables:
  "cloneRepository e repo [] w =
     (case mkdtemp e (tmpdir e @ sep) w of
        (tempRepositoryPath, w1) \<Rightarrow>
          (let w2 = w1\<lparr>clone_calls := clone_calls w1 @
                      [\<lparr>clone_repository = repo, clone_url = repo, clone_dir = tempRepositoryPath\<rparr>]\<rparr>
           in case git_clone e repo tempRepositoryPath of
                Inl err \<Rightarrow> (Inl err, w2)
              | Inr _ \<Rightarrow> (Inr tempRepositoryPath, w2)))"
  by (simp add: cloneRepository_def replaceRepositoryVariablesWithEnvVariables_def)

lemma cloneRepositories_loop_calls:
  assumes "cloneRepositories_loop e ls m w = (Inr m', w')"
    and "\<forall>k p. m k = Some p \<longrightarrow> p \<noteq> []"
  shows "\<exists>new. clone_calls w' = clone_calls w @ new
           \<and> distinct (map clone_repository new)
           \<and> set (map clone_repository new) = repository ` set ls - set objectPrototypeKeys - dom m
           \<and> (\<forall>c\<in>set new.
                 clone_url c = replaceRepositoryVariablesWithEnvVariables (clone_repository c) (process_env e)
                 \<and> m' (clone_repository c) = Some (clone_dir c))
           \<and> (\<forall>k\<in>dom m. m' k = m k)
           \<and> dom m' = dom m \<union> (repository ` set ls - set objectPrototypeKeys)"
  using assms
proof (induction ls arbitrary: m w)
  case Nil
  then show ?case by simp
next
  case (Cons l ls)
  let ?k = "repository l"
  show ?case
  proof (cases "notCloned m ?k")
    case True
    with Cons.prems(2) have knone: "m ?k = None" and kown: "?k \<notin> set objectPrototypeKeys"
      by (auto simp: notCloned_def split: option.splits)
    obtain r w1 where cr: "cloneRepository e ?k (process_env e) w = (r, w1)"
      by (cases "cloneRepository e ?k (process_env e) w")
    with True Cons.prems(1) obtain p where r: "r = Inr p"
      by (cases r) auto
    from cr r True Cons.prems(1)
    have loop: "cloneRepositories_loop e ls (m(?k \<mapsto> p)) w1 = (Inr m', w')"
      by simp
    from cloneRepository_Inr[OF cr[unfolded r]]
    have calls: "clone_calls w1 = clone_calls w @
           [\<lparr>clone_repository = ?k,
             clone_url = replaceRepositoryVariablesWithEnvVariables ?k (process_env e),
             clone_dir = p\<rparr>]"
      and pne: "p \<noteq> []" by simp_all
    let ?c0 = "\<lparr>clone_repository = ?k,
             clone_url = replaceRepositoryVariablesWithEnvVariables ?k (process_env e),
             clone_dir = p\<rparr>"
    have inv: "\<forall>k q. (m(?k \<mapsto> p)) k = Some q \<longrightarrow> q \<noteq> []"
      using Cons.prems(2) pne by auto
    from Cons.IH[OF loop inv] obtain new where
      n1: "clone_calls w' = clone_calls w1 @ new"
      and n2: "distinct (map clone_repository new)"
      and n3: "set (map clone_repository new)
                 = repository ` set ls - set objectPrototypeKeys - dom (m(?k \<mapsto> p))"
      and n4: "\<forall>c\<in>set new.
                 clone_url c = replaceRepositoryVariablesWithEnvVariables (clone_repository c) (process_env e)
                 \<and> m' (clone_repository c) = Some (clone_dir c)"
      and n5: "\<forall>k\<in>dom (m(?k \<mapsto> p)). m' k = (m(?k \<mapsto> p)) k"
      and n6: "dom m' = dom (m(?k \<mapsto> p)) \<union> (repository ` set ls - set objectPrototypeKeys)"
      by blast
    have mk: "m' ?k = Some p" using n5 by simp
    have a1: "clone_calls w' = clone_calls w @ (?c0 # new)" using n1 calls by simp
    have a2: "distinct (map clone_repository (?c0 # new))" using n2 n3 by auto
    have a3: "set (map clone_repository (?c0 # new))
                = repository ` set (l # ls) - set objectPrototypeKeys - dom m"
      using n3 knone kown by auto
    have a4: "\<forall>c\<in>set (?c0 # new).
                 clone_url c = replaceRepositoryVariablesWithEnvVariables (clone_repository c) (process_env e)
                 \<and> m' (clone_repository c) = Some (clone_dir c)"
      using n4 mk by simp
    have a5: "\<forall>k\<in>dom m. m' k = m k"
    proof
      fix k assume "k \<in> dom m"
      then have "k \<noteq> ?k" using knone by auto
      moreover have "m' k = (m(?k \<mapsto> p)) k" using n5 \<open>k \<in> dom m\<close> by simp
      ultimately show "m' k = m k" by simp
    qed
    have a6: "dom m' = dom m \<union> (repository ` set (l # ls) - set objectPrototypeKeys)"
      using n6 kown by auto
    from a1 a2 a3 a4 a5 a6 show ?thesis by blast
  next
    case False
    then have kin: "?k \<in> dom m \<or> ?k \<in> set objectPrototypeKeys"
      by (auto simp: notCloned_def split: option.splits)
    from False Cons.prems(1) have loop: "cloneRepositories_loop e ls m w = (Inr m', w')"
      by simp
    from Cons.IH[OF loop Cons.prems(2)] obtain new where
      n1: "clone_calls w' = clone_calls w @ new"
      and n2: "distinct (map clone_repository new)"
      and n3: "set (map clone_repository new) = repository ` set ls - set objectPrototypeKeys - dom m"
      and n4: "\<forall>c\<in>set new.
                 clone_url c = replaceRepositoryVariablesWithEnvVariables (clone_repository c) (process_env e)
                 \<and> m' (clone_repository c) = Some (clone_dir c)"
      and n5: "\<forall>k\<in>dom m. m' k = m k"
      and n6: "dom m' = dom m \<union> (repository ` set ls - set objectPrototypeKeys)"
      by blast
    have a3: "set (map clone_repository new)
                = repository ` set (l # ls) - set objectPrototypeKeys - dom m"
      using n3 kin by auto
    have a6: "dom m' = dom m \<union> (repository ` set (l # ls) - set objectPrototypeKeys)"
      using n6 kin by auto
    from n1 n2 a3 n4 n5 a6 show ?thesis by blast
  qed
qed

lemma cloneRepositories_loop_succeeds:
  assumes "\<forall>l\<in>set ls. \<forall>d.
             git_clone e (replaceRepositoryVariablesWithEnvVariables (repository l) (process_env e)) d = Inr ()"
  shows "\<exists>m' w'. cloneRepositories_loop e ls m w = (Inr m', w')"
  using assms
proof (induction ls arbitrary: m w)
  case Nil
  then show ?case by simp
next
  case (Cons l ls)
  then show ?case
    by (auto simp: cloneRepository_def mkdtemp_def Let_def split: sum.splits prod.splits)
qed

lemma sample_url:
  "replaceRepositoryVariablesWithEnvVariables ''https://$FOO@github.com/1024pix/pix.git'' [(''FOO'', ''BAR'')]
     = ''https://BAR@github.com/1024pix/pix.git''"
  by (simp add: replaceRepositoryVariablesWithEnvVariables_def replaceAll_def)

lemma sample_clone:
  "cloneRepositories sample_env sample_lines sample_world
     = (Inr [''https://$FOO@github.com/1024pix/pix.git'' \<mapsto> ''/tmp/a''],
        sample_world\<lparr>tmpdirs := 1,
          clone_calls := [\<lparr>clone_repository = ''https://$FOO@github.com/1024pix/pix.git'',
                           clone_url = ''https://BAR@github.com/1024pix/pix.git'',
                           clone_dir = ''/tmp/a''\<rparr>]\<rparr>)"
proof -
  have e: "process_env sample_env = [(''FOO'', ''BAR'')]" "tmpdir sample_env = ''/tmp''"
    "tmp_suffix sample_env 0 = ''a''"
    "git_clone sample_env u d = Inr ()" for u d
    by (simp_all add: sample_env_def)
  have w: "tmpdirs sample_world = 0" "clone_calls sample_world = []"
    by (simp_all add: sample_world_def)
  have c: "cloneRepository sample_env ''https://$FOO@github.com/1024pix/pix.git''
             (process_env sample_env) sample_world
           = (Inr ''/tmp/a'',
              sample_world\<lparr>tmpdirs := 1,
                clone_calls := [\<lparr>clone_repository = ''https://$FOO@github.com/1024pix/pix.git'',
                           clone_url = ''https://BAR@github.com/1024pix/pix.git'',
                           clone_dir = ''/tmp/a''\<rparr>]\<rparr>)"
    by (simp add: cloneRepository_def mkdtemp_def sep_def e w sample_url)
  show ?thesis
    by (simp add: cloneRepositories_def sample_lines_def notCloned_def objectPrototypeKeys_def c)
qed

lemma sample_inherited:
  "cloneRepositories sample_env [\<lparr>repository = ''constructor'', path = ''''\<rparr>] sample_world
     = (Inr Map.empty, sample_world)"
  by (simp add: cloneRepositories_def notCloned_def objectPrototypeKeys_def)

text \<open>
  Claim C9. When \<^const>\<open>cloneRepositories\<close> returns, the clone operations it has
  performed are one for each distinct repository URL of the entries that is not the name
  of a property every object inherits (\<^const>\<open>objectPrototypeKeys\<close>), and no other:
  their repositories are pairwise distinct and are exactly those URLs. Each clones the
  URL after the substitution of the variables into a new directory, and the map returned
  sends the URL, hence every entry that has it, to that directory. When no entry has such
  a name, that is one clone for each distinct URL of the list. A URL that is such a name
  is not cloned and is not a key of the map: for the single entry \<open>constructor\<close> no
  clone is made. The function returns whenever every clone succeeds. (The revision
  without variables is the case of an empty \<open>process_env\<close>.)
\<close>

theorem cloneRepositories_one_clone_per_url:
  "(cloneRepositories e ls w = (Inr m, w') \<longrightarrow>
      (\<exists>new. clone_calls w' = clone_calls w @ new
         \<and> distinct (map clone_repository new)
         \<and> set (map clone_repository new) = repository ` set ls - set objectPrototypeKeys
         \<and> (set objectPrototypeKeys \<inter> repository ` set ls = {} \<longrightarrow>
               set (map clone_repository new) = repository ` set ls)
         \<and> (\<forall>c\<in>set new.
               clone_url c = replaceRepositoryVariablesWithEnvVariables (clone_repository c) (process_env e)
               \<and> m (clone_repository c) = Some (clone_dir c))
         \<and> dom m = repository ` set ls - set objectPrototypeKeys))
   \<and> ((\<forall>l\<in>set ls. \<forall>d.
          git_clone e (replaceRepositoryVariablesWithEnvVariables (repository l) (process_env e)) d = Inr ())
        \<longrightarrow> (\<exists>m w'. cloneRepositories e ls w = (Inr m, w')))
   \<and> cloneRepositories sample_env [\<lparr>repository = ''constructor'', path = ''''\<rparr>] sample_world
        = (Inr Map.empty, sample_world)"
proof (intro conjI impI)
  assume a: "cloneRepositories e ls w = (Inr m, w')"
  have "\<forall>k p. Map.empty k = Some p \<longrightarrow> p \<noteq> ([]::string)" by simp
  from cloneRepositories_loop_calls[OF a[unfolded cloneRepositories_def] this]
  obtain new where n: "clone_calls w' = clone_calls w @ new"
      "distinct (map clone_repository new)"
      "set (map clone_repository new) = repository ` set ls - set objectPrototypeKeys"
      "\<forall>c\<in>set new.
               clone_url c = replaceRepositoryVariablesWithEnvVariables (clone_repository c) (process_env e)
               \<and> m (clone_repository c) = Some (clone_dir c)"
      "dom m = repository ` set ls - set objectPrototypeKeys"
    by auto
  have "set objectPrototypeKeys \<inter> repository ` set ls = {} \<longrightarrow>
               set (map clone_repository new) = repository ` set ls"
    using n(3) by blast
  with n show "\<exists>new. clone_calls w' = clone_calls w @ new
         \<and> distinct (map clone_repository new)
         \<and> set (map clone_repository new) = repository ` set ls - set objectPrototypeKeys
         \<and> (set objectPrototypeKeys \<inter> repository ` set ls = {} \<longrightarrow>
               set (map clone_repository new) = repository ` set ls)
         \<and> (\<forall>c\<in>set new.
               clone_url c = replaceRepositoryVariablesWithEnvVariables (clone_repository c) (process_env e)
               \<and> m (clone_repository c) = Some (clone_dir c))
         \<and> dom m = repository ` set ls - set objectPrototypeKeys"
    by blast
next
  assume "\<forall>l\<in>set ls. \<forall>d.
          git_clone e (replaceRepositoryVariablesWithEnvVariables (repository l) (process_env e)) d = Inr ()"
  then show "\<exists>m w'. cloneRepositories e ls w = (Inr m, w')"
    unfolding cloneRepositories_def by (rule cloneRepositories_loop_succeeds)
next
  show "cloneRepositories sample_env [\<lparr>repository = ''constructor'', path = ''''\<rparr>] sample_world
        = (Inr Map.empty, sample_world)"
    by (rule sample_inherited)
qed

theorem cloneRepositories_one_clone_per_url_witness:
  "cloneRepositories sample_env sample_lines sample_world
     = (Inr [''https://$FOO@github.com/1024pix/pix.git'' \<mapsto> ''/tmp/a''],
        sample_world\<lparr>tmpdirs := 1,
          clone_calls := [\<lparr>clone_repository = ''https://$FOO@github.com/1024pix/pix.git'',
                           clone_url = ''https://BAR@github.com/1024pix/pix.git'',
                           clone_dir = ''/tmp/a''\<rparr>]\<rparr>)
   \<and> (\<exists>new. clone_calls (sample_world\<lparr>tmpdirs := 1,
          clone_calls := [\<lparr>clone_repository = ''https://$FOO@github.com/1024pix/pix.git'',
                           clone_url = ''https://BAR@github.com/1024pix/pix.git'',
                           clone_dir = ''/tmp/a''\<rparr>]\<rparr>) = clone_calls sample_world @ new
         \<and> distinct (map clone_repository new)
         \<and> set (map clone_repository new) = repository ` set sample_lines)
   \<and> (\<exists>m w'. cloneRepositories sample_env sample_lines sample_world = (Inr m, w'))"
proof -
  have s: "\<forall>l\<in>set sample_lines. \<forall>d.
          git_clone sample_env
            (replaceRepositoryVariablesWithEnvVariables (repository l) (process_env sample_env)) d = Inr ()"
    by (simp add: sample_env_def)
  have o: "set objectPrototypeKeys \<inter> repository ` set sample_lines = {}"
    by (simp add: objectPrototypeKeys_def sample_lines_def)
  from sample_clone s o
    cloneRepositories_one_clone_per_url[of sample_env sample_lines sample_world
      "[''https://$FOO@github.com/1024pix/pix.git'' \<mapsto> ''/tmp/a'']"
      "sample_world\<lparr>tmpdirs := 1,
          clone_calls := [\<lparr>clone_repository = ''https://$FOO@github.com/1024pix/pix.git'',
                           clone_url = ''https://BAR@github.com/1024pix/pix.git'',
                           clone_dir = ''/tmp/a''\<rparr>]\<rparr>"]
  show ?thesis by blast
qed

text \<open>
  A list whose only entry is the repository \<open>constructor\<close> has one distinct URL, and no
  clone is made for it.
\<close>

theorem cloneRepositories_inherited_name_counterexample:
  "repository ` set [\<lparr>repository = ''constructor'', path = ''''\<rparr>] = {''constructor''}
   \<and> clone_calls (snd (cloneRepositories sample_env [\<lparr>repository = ''constructor'', path = ''''\<rparr>]
                          sample_world)) = []
   \<and> fst (cloneRepositories sample_env [\<lparr>repository = ''constructor'', path = ''''\<rparr>] sample_world)
       = Inr Map.empty"
  by (simp add: cloneRepositories_def notCloned_def objectPrototypeKeys_def sample_world_def)

section \<open>Properties of the query\<close>

lemma setDate_shift:
  "setDate e t (getDate e t + k) = UTCTime e (LocalTime e t + k * msPerDay)"
proof -
  have "(LocalTime e t div msPerDay + k) * msPerDay + LocalTime e t mod msPerDay
          = (LocalTime e t div msPerDay * msPerDay + LocalTime e t mod msPerDay) + k * msPerDay"
    by (simp add: algebra_simps)
  also have "\<dots> = LocalTime e t + k * msPerDay"
    by (simp only: div_mult_mod_eq)
  finally show ?thesis
    by (simp only: setDate_def getDate_def MakeDay_roundtrip)
qed

lemma getYesterday_closed:
  "getYesterday e =
     UTCTime e (LocalTime e (now e)
                  + (getDate e (now_later e) - getDate e (now e) - 1) * msPerDay)"
proof -
  have "getDate e (now_later e) - 1
          = getDate e (now e) + (getDate e (now_later e) - getDate e (now e) - 1)"
    by simp
  then show ?thesis
    unfolding getYesterday_def by (simp only: setDate_shift)
qed

lemma getYesterday_fixed:
  assumes "getDate e (now_later e) = getDate e (now e)"
    and "localTZA e (LocalTime e (now e) - msPerDay) False = localTZA e (now e) True"
  shows "getYesterday e = now e - msPerDay"
proof -
  have "getYesterday e = UTCTime e (LocalTime e (now e) - msPerDay)"
    unfolding getYesterday_closed assms(1) by simp
  also have "\<dots> = LocalTime e (now e) - msPerDay - localTZA e (now e) True"
    unfolding UTCTime_def assms(2) by simp
  also have "\<dots> = now e - msPerDay"
    by (simp add: LocalTime_def)
  finally show ?thesis .
qed

lemma civil_yesterday:
  "civilNextDay (YearFromTime (t - msPerDay), MonthFromTime (t - msPerDay) + 1,
                 DateFromTime (t - msPerDay))
     = (YearFromTime t, MonthFromTime t + 1, DateFromTime t)"
  using civil_step[of "t - msPerDay"] by simp

lemma isoDay_digits:
  assumes "0 \<le> YearFromTime t" "YearFromTime t \<le> 9999"
  shows "isoDay t =
          [digit (YearFromTime t div 1000), digit (YearFromTime t div 100),
           digit (YearFromTime t div 10), digit (YearFromTime t), CHR ''-'',
           digit ((MonthFromTime t + 1) div 10), digit (MonthFromTime t + 1), CHR ''-'',
           digit (DateFromTime t div 10), digit (DateFromTime t)]"
  using assms by (simp add: isoDay_def isoYear_def pad2_def)

lemma query_general:
  "getQueryForMergedBumpPullRequestsForYesterday e repo pth =
     [CHR 0x0A] @ ''    query {'' @ [CHR 0x0A] @
     ''      search(first: 100, query: '' @ [CHR 0x22] @ ''repo:'' @ repo @
     '' is:pr is:merged merged:'' @ isoDay (getYesterday e) @ ''..'' @ isoDay (getYesterday e) @
     '' in:title [BUMP] '' @ (if pth = [] then [] else ''('' @ pth @ '')'') @
     [CHR 0x22] @ '', type: ISSUE) {'' @ [CHR 0x0A] @
     ''        nodes {'' @ [CHR 0x0A] @
     ''          ... on PullRequest {'' @ [CHR 0x0A] @
     ''            title'' @ [CHR 0x0A] @
     ''          }'' @ [CHR 0x0A] @
     ''        }'' @ [CHR 0x0A] @
     ''      }'' @ [CHR 0x0A] @
     ''    }''"
  unfolding getQueryForMergedBumpPullRequestsForYesterday_def Let_def isoDate_isoDay
  by simp

lemma sample_yesterday: "getYesterday sample_env = 1675123200000"
  by code_simp

lemma sample_yesterday_day: "isoDay (getYesterday sample_env) = ''2023-01-31''"
  by code_simp

lemma leap_yesterday_day:
  "isoDay (getYesterday (sample_env\<lparr>now := 1709251200000, now_later := 1709251200000\<rparr>))
     = ''2024-02-29''"
  by code_simp

lemma paris_now: "toISOString (now paris_env) = ''2023-10-30T00:30:00.000Z''"
  by code_simp

lemma paris_local_day: "isoDay (LocalTime paris_env (now paris_env)) = ''2023-10-30''"
  by code_simp

lemma paris_yesterday: "toISOString (getYesterday paris_env) = ''2023-10-28T23:30:00.000Z''"
  by code_simp

lemma paris_yesterday_day: "isoDay (getYesterday paris_env) = ''2023-10-28''"
  by code_simp

lemma paris_day_before: "isoDay (now paris_env - msPerDay) = ''2023-10-29''"
  by code_simp

text \<open>
  Claim C6. For every repository and path the query is the fixed template, asking for
  the first 100 merged pull requests of the repository with \<open>[BUMP]\<close> in the title; both
  bounds of the merge date are the date part of \<^verbatim>\<open>getYesterday().toISOString()\<close>; the path
  follows the marker in parentheses when it is not empty, and nothing follows the space
  after the marker when it is. \<^const>\<open>getYesterday\<close> is the local time of the first clock
  reading, moved by whole days to the day before the local date of the second reading
  and converted to UTC with the offset in force at that local time. When both readings
  have the same local date and the offset at that local time is the offset now, it is
  the instant 24 hours before now, and the day after its UTC calendar day is the
  current UTC calendar day. The calendar is the Gregorian one: day 0 is 1970-01-01 and
  one day later the date is the next one (\<^const>\<open>civilNextDay\<close>); the day is written
  \<open>YYYY-MM-DD\<close> in decimal digits for the years 0 to 9999. At 2023-02-01T00:00:00Z the query
  for \<open>1024pix/pix\<close> and \<open>1d\<close> contains
  \<open>merged:2023-01-31..2023-01-31 in:title [BUMP] (1d)\<close>; at 2024-03-01T00:00:00Z the day
  is 2024-02-29. In the zone of Paris at 2023-10-30T00:30:00Z (01:30 local time, the day
  after the end of summer time) the day is 2023-10-28, two days before the current date.
\<close>

theorem getQuery_template:
  "getQueryForMergedBumpPullRequestsForYesterday e repo pth =
     [CHR 0x0A] @ ''    query {'' @ [CHR 0x0A] @
     ''      search(first: 100, query: '' @ [CHR 0x22] @ ''repo:'' @ repo @
     '' is:pr is:merged merged:'' @ isoDay (getYesterday e) @ ''..'' @ isoDay (getYesterday e) @
     '' in:title [BUMP] '' @ (if pth = [] then [] else ''('' @ pth @ '')'') @
     [CHR 0x22] @ '', type: ISSUE) {'' @ [CHR 0x0A] @
     ''        nodes {'' @ [CHR 0x0A] @
     ''          ... on PullRequest {'' @ [CHR 0x0A] @
     ''            title'' @ [CHR 0x0A] @
     ''          }'' @ [CHR 0x0A] @
     ''        }'' @ [CHR 0x0A] @
     ''      }'' @ [CHR 0x0A] @
     ''    }''
   \<and> getYesterday e =
       UTCTime e (LocalTime e (now e)
                    + (getDate e (now_later e) - getDate e (now e) - 1) * msPerDay)
   \<and> (getDate e (now_later e) = getDate e (now e)
        \<and> localTZA e (LocalTime e (now e) - msPerDay) False = localTZA e (now e) True \<longrightarrow>
          getYesterday e = now e - msPerDay
          \<and> civilNextDay (YearFromTime (getYesterday e), MonthFromTime (getYesterday e) + 1,
                           DateFromTime (getYesterday e))
              = (YearFromTime (now e), MonthFromTime (now e) + 1, DateFromTime (now e)))
   \<and> (YearFromTime 0, MonthFromTime 0 + 1, DateFromTime 0) = (1970, 1, 1)
   \<and> (YearFromTime (t + msPerDay), MonthFromTime (t + msPerDay) + 1, DateFromTime (t + msPerDay))
        = civilNextDay (YearFromTime t, MonthFromTime t + 1, DateFromTime t)
   \<and> 1 \<le> MonthFromTime t + 1 \<and> MonthFromTime t + 1 \<le> 12
      \<and> 1 \<le> DateFromTime t \<and> DateFromTime t \<le> 31
   \<and> (0 \<le> YearFromTime t \<and> YearFromTime t \<le> 9999 \<longrightarrow>
        isoDay t =
          [digit (YearFromTime t div 1000), digit (YearFromTime t div 100),
           digit (YearFromTime t div 10), digit (YearFromTime t), CHR ''-'',
           digit ((MonthFromTime t + 1) div 10), digit (MonthFromTime t + 1), CHR ''-'',
           digit (DateFromTime t div 10), digit (DateFromTime t)])
   \<and> digit n = char_of (48 + n mod 10)
   \<and> getQueryForMergedBumpPullRequestsForYesterday sample_env ''1024pix/pix'' ''1d'' =
       [CHR 0x0A] @ ''    query {'' @ [CHR 0x0A] @
       ''      search(first: 100, query: '' @ [CHR 0x22] @
       ''repo:1024pix/pix is:pr is:merged merged:2023-01-31..2023-01-31 in:title [BUMP] (1d)'' @
       [CHR 0x22] @ '', type: ISSUE) {'' @ [CHR 0x0A] @
       ''        nodes {'' @ [CHR 0x0A] @
       ''          ... on PullRequest {'' @ [CHR 0x0A] @
       ''            title'' @ [CHR 0x0A] @
       ''          }'' @ [CHR 0x0A] @
       ''        }'' @ [CHR 0x0A] @
       ''      }'' @ [CHR 0x0A] @
       ''    }''
   \<and> getQueryForMergedBumpPullRequestsForYesterday sample_env ''1024pix/pix'' [] =
       [CHR 0x0A] @ ''    query {'' @ [CHR 0x0A] @
       ''      search(first: 100, query: '' @ [CHR 0x22] @
       ''repo:1024pix/pix is:pr is:merged merged:2023-01-31..2023-01-31 in:title [BUMP] '' @
       [CHR 0x22] @ '', type: ISSUE) {'' @ [CHR 0x0A] @
       ''        nodes {'' @ [CHR 0x0A] @
       ''          ... on PullRequest {'' @ [CHR 0x0A] @
       ''            title'' @ [CHR 0x0A] @
       ''          }'' @ [CHR 0x0A] @
       ''        }'' @ [CHR 0x0A] @
       ''      }'' @ [CHR 0x0A] @
       ''    }''
   \<and> isoDay (getYesterday (sample_env\<lparr>now := 1709251200000, now_later := 1709251200000\<rparr>))
       = ''2024-02-29''
   \<and> toISOString (now paris_env) = ''2023-10-30T00:30:00.000Z''
      \<and> isoDay (LocalTime paris_env (now paris_env)) = ''2023-10-30''
      \<and> toISOString (getYesterday paris_env) = ''2023-10-28T23:30:00.000Z''
      \<and> isoDay (getYesterday paris_env) = ''2023-10-28''"
proof -
  have c0: "getQueryForMergedBumpPullRequestsForYesterday e repo pth =
     [CHR 0x0A] @ ''    query {'' @ [CHR 0x0A] @
     ''      search(first: 100, query: '' @ [CHR 0x22] @ ''repo:'' @ repo @
     '' is:pr is:merged merged:'' @ isoDay (getYesterday e) @ ''..'' @ isoDay (getYesterday e) @
     '' in:title [BUMP] '' @ (if pth = [] then [] else ''('' @ pth @ '')'') @
     [CHR 0x22] @ '', type: ISSUE) {'' @ [CHR 0x0A] @
     ''        nodes {'' @ [CHR 0x0A] @
     ''          ... on PullRequest {'' @ [CHR 0x0A] @
     ''            title'' @ [CHR 0x0A] @
     ''          }'' @ [CHR 0x0A] @
     ''        }'' @ [CHR 0x0A] @
     ''      }'' @ [CHR 0x0A] @
     ''    }''"
    by (rule query_general)
  have c1: "getYesterday e =
       UTCTime e (LocalTime e (now e)
                    + (getDate e (now_later e) - getDate e (now e) - 1) * msPerDay)"
    by (rule getYesterday_closed)
  have c2: "getDate e (now_later e) = getDate e (now e)
        \<and> localTZA e (LocalTime e (now e) - msPerDay) False = localTZA e (now e) True \<longrightarrow>
          getYesterday e = now e - msPerDay
          \<and> civilNextDay (YearFromTime (getYesterday e), MonthFromTime (getYesterday e) + 1,
                           DateFromTime (getYesterday e))
              = (YearFromTime (now e), MonthFromTime (now e) + 1, DateFromTime (now e))"
    proof (intro impI conjI)
    assume h: "getDate e (now_later e) = getDate e (now e)
        \<and> localTZA e (LocalTime e (now e) - msPerDay) False = localTZA e (now e) True"
    then show g: "getYesterday e = now e - msPerDay"
      using getYesterday_fixed[of e] by blast
    show "civilNextDay (YearFromTime (getYesterday e), MonthFromTime (getYesterday e) + 1,
                           DateFromTime (getYesterday e))
              = (YearFromTime (now e), MonthFromTime (now e) + 1, DateFromTime (now e))"
      unfolding g by (rule civil_yesterday)
  qed
  have c3: "(YearFromTime 0, MonthFromTime 0 + 1, DateFromTime 0) = (1970, 1, 1)"
    by (rule civil_epoch)
  have c4: "(YearFromTime (t + msPerDay), MonthFromTime (t + msPerDay) + 1, DateFromTime (t + msPerDay))
        = civilNextDay (YearFromTime t, MonthFromTime t + 1, DateFromTime t)"
    by (rule civil_step)
  have c5: "1 \<le> MonthFromTime t + 1 \<and> MonthFromTime t + 1 \<le> 12
      \<and> 1 \<le> DateFromTime t \<and> DateFromTime t \<le> 31"
    using calendar_ranges[of t] by simp
  have c6: "0 \<le> YearFromTime t \<and> YearFromTime t \<le> 9999 \<longrightarrow>
        isoDay t =
          [digit (YearFromTime t div 1000), digit (YearFromTime t div 100),
           digit (YearFromTime t div 10), digit (YearFromTime t), CHR ''-'',
           digit ((MonthFromTime t + 1) div 10), digit (MonthFromTime t + 1), CHR ''-'',
           digit (DateFromTime t div 10), digit (DateFromTime t)]"
    using isoDay_digits[of t] by blast
  have c7: "digit n = char_of (48 + n mod 10)"
    by (rule digit_ascii)
  have c8: "getQueryForMergedBumpPullRequestsForYesterday sample_env ''1024pix/pix'' ''1d'' =
       [CHR 0x0A] @ ''    query {'' @ [CHR 0x0A] @
       ''      search(first: 100, query: '' @ [CHR 0x22] @
       ''repo:1024pix/pix is:pr is:merged merged:2023-01-31..2023-01-31 in:title [BUMP] (1d)'' @
       [CHR 0x22] @ '', type: ISSUE) {'' @ [CHR 0x0A] @
       ''        nodes {'' @ [CHR 0x0A] @
       ''          ... on PullRequest {'' @ [CHR 0x0A] @
       ''            title'' @ [CHR 0x0A] @
       ''          }'' @ [CHR 0x0A] @
       ''        }'' @ [CHR 0x0A] @
       ''      }'' @ [CHR 0x0A] @
       ''    }''"
    by (simp add: query_general sample_yesterday_day)
  have c9: "getQueryForMergedBumpPullRequestsForYesterday sample_env ''1024pix/pix'' [] =
       [CHR 0x0A] @ ''    query {'' @ [CHR 0x0A] @
       ''      search(first: 100, query: '' @ [CHR 0x22] @
       ''repo:1024pix/pix is:pr is:merged merged:2023-01-31..2023-01-31 in:title [BUMP] '' @
       [CHR 0x22] @ '', type: ISSUE) {'' @ [CHR 0x0A] @
       ''        nodes {'' @ [CHR 0x0A] @
       ''          ... on PullRequest {'' @ [CHR 0x0A] @
       ''            title'' @ [CHR 0x0A] @
       ''          }'' @ [CHR 0x0A] @
       ''        }'' @ [CHR 0x0A] @
       ''      }'' @ [CHR 0x0A] @
       ''    }''"
    by (simp add: query_general sample_yesterday_day)
  have c10: "isoDay (getYesterday (sample_env\<lparr>now := 1709251200000, now_later := 1709251200000\<rparr>))
       = ''2024-02-29''"
    by (rule leap_yesterday_day)
  have c11: "toISOString (now paris_env) = ''2023-10-30T00:30:00.000Z''
      \<and> isoDay (LocalTime paris_env (now paris_env)) = ''2023-10-30''
      \<and> toISOString (getYesterday paris_env) = ''2023-10-28T23:30:00.000Z''
      \<and> isoDay (getYesterday paris_env) = ''2023-10-28''"
    using paris_now paris_local_day paris_yesterday paris_yesterday_day by blast
  from c0 c1 c2 c3 c4 c5 c6 c7 c8 c9 c10 c11
  show ?thesis by (intro conjI) blast+
qed

theorem getQuery_template_witness:
  "getYesterday sample_env = now sample_env - msPerDay
   \<and> civilNextDay (YearFromTime (getYesterday sample_env), MonthFromTime (getYesterday sample_env) + 1,
                    DateFromTime (getYesterday sample_env))
       = (YearFromTime (now sample_env), MonthFromTime (now sample_env) + 1,
          DateFromTime (now sample_env))
   \<and> isoDay 1675123200000 = ''2023-01-31''"
proof -
  have h: "getDate sample_env (now_later sample_env) = getDate sample_env (now sample_env)
        \<and> localTZA sample_env (LocalTime sample_env (now sample_env) - msPerDay) False
            = localTZA sample_env (now sample_env) True"
    by (simp add: sample_env_def)
  have y: "0 \<le> YearFromTime 1675123200000 \<and> YearFromTime 1675123200000 \<le> 9999"
    by code_simp
  have d: "[digit (YearFromTime 1675123200000 div 1000), digit (YearFromTime 1675123200000 div 100),
           digit (YearFromTime 1675123200000 div 10), digit (YearFromTime 1675123200000), CHR ''-'',
           digit ((MonthFromTime 1675123200000 + 1) div 10), digit (MonthFromTime 1675123200000 + 1),
           CHR ''-'', digit (DateFromTime 1675123200000 div 10), digit (DateFromTime 1675123200000)]
          = ''2023-01-31''"
    by code_simp
  note T = getQuery_template[of sample_env "''1024pix/pix''" "''1d''" 1675123200000 0]
  note fixed = T[THEN conjunct2, THEN conjunct2, THEN conjunct1]
  note fmt = T[THEN conjunct2, THEN conjunct2, THEN conjunct2, THEN conjunct2, THEN conjunct2,
               THEN conjunct2, THEN conjunct2, THEN conjunct2, THEN conjunct2, THEN conjunct1]
  from fixed h have a: "getYesterday sample_env = now sample_env - msPerDay
     \<and> civilNextDay (YearFromTime (getYesterday sample_env), MonthFromTime (getYesterday sample_env) + 1,
                    DateFromTime (getYesterday sample_env))
       = (YearFromTime (now sample_env), MonthFromTime (now sample_env) + 1,
          DateFromTime (now sample_env))"
    by (rule mp)
  from fmt y have "isoDay 1675123200000 =
          [digit (YearFromTime 1675123200000 div 1000), digit (YearFromTime 1675123200000 div 100),
           digit (YearFromTime 1675123200000 div 10), digit (YearFromTime 1675123200000), CHR ''-'',
           digit ((MonthFromTime 1675123200000 + 1) div 10), digit (MonthFromTime 1675123200000 + 1),
           CHR ''-'', digit (DateFromTime 1675123200000 div 10), digit (DateFromTime 1675123200000)]"
    by (rule mp)
  then have b: "isoDay 1675123200000 = ''2023-01-31''"
    unfolding d .
  from a b show ?thesis by (intro conjI) blast+
qed

text \<open>
  In the zone of Paris at 2023-10-30T00:30:00Z the current date is 2023-10-30, in UTC
  and in local time, and the day before it is 2023-10-29; the query asks for 2023-10-28.
\<close>

theorem getQuery_daylight_saving_counterexample:
  "isoDay (now paris_env) = ''2023-10-30''
   \<and> isoDay (LocalTime paris_env (now paris_env)) = ''2023-10-30''
   \<and> isoDay (now paris_env - msPerDay) = ''2023-10-29''
   \<and> getQueryForMergedBumpPullRequestsForYesterday paris_env ''1024pix/pix'' ''1d'' =
       [CHR 0x0A] @ ''    query {'' @ [CHR 0x0A] @
       ''      search(first: 100, query: '' @ [CHR 0x22] @
       ''repo:1024pix/pix is:pr is:merged merged:2023-10-28..2023-10-28 in:title [BUMP] (1d)'' @
       [CHR 0x22] @ '', type: ISSUE) {'' @ [CHR 0x0A] @
       ''        nodes {'' @ [CHR 0x0A] @
       ''          ... on PullRequest {'' @ [CHR 0x0A] @
       ''            title'' @ [CHR 0x0A] @
       ''          }'' @ [CHR 0x0A] @
       ''        }'' @ [CHR 0x0A] @
       ''      }'' @ [CHR 0x0A] @
       ''    }''
   \<and> getQueryForMergedBumpPullRequestsForYesterday paris_env ''1024pix/pix'' ''1d'' \<noteq>
       [CHR 0x0A] @ ''    query {'' @ [CHR 0x0A] @
       ''      search(first: 100, query: '' @ [CHR 0x22] @
       ''repo:1024pix/pix is:pr is:merged merged:2023-10-29..2023-10-29 in:title [BUMP] (1d)'' @
       [CHR 0x22] @ '', type: ISSUE) {'' @ [CHR 0x0A] @
       ''        nodes {'' @ [CHR 0x0A] @
       ''          ... on PullRequest {'' @ [CHR 0x0A] @
       ''            title'' @ [CHR 0x0A] @
       ''          }'' @ [CHR 0x0A] @
       ''        }'' @ [CHR 0x0A] @
       ''      }'' @ [CHR 0x0A] @
       ''    }''"
proof -
  have a: "isoDay (now paris_env) = ''2023-10-30''" by code_simp
  have q: "getQueryForMergedBumpPullRequestsForYesterday paris_env ''1024pix/pix'' ''1d'' =
       [CHR 0x0A] @ ''    query {'' @ [CHR 0x0A] @
       ''      search(first: 100, query: '' @ [CHR 0x22] @
       ''repo:1024pix/pix is:pr is:merged merged:2023-10-28..2023-10-28 in:title [BUMP] (1d)'' @
       [CHR 0x22] @ '', type: ISSUE) {'' @ [CHR 0x0A] @
       ''        nodes {'' @ [CHR 0x0A] @
       ''          ... on PullRequest {'' @ [CHR 0x0A] @
       ''            title'' @ [CHR 0x0A] @
       ''          }'' @ [CHR 0x0A] @
       ''        }'' @ [CHR 0x0A] @
       ''      }'' @ [CHR 0x0A] @
       ''    }''"
    by (simp add: query_general paris_yesterday_day)
  have n: "getQueryForMergedBumpPullRequestsForYesterday paris_env ''1024pix/pix'' ''1d'' \<noteq>
       [CHR 0x0A] @ ''    query {'' @ [CHR 0x0A] @
       ''      search(first: 100, query: '' @ [CHR 0x22] @
       ''repo:1024pix/pix is:pr is:merged merged:2023-10-29..2023-10-29 in:title [BUMP] (1d)'' @
       [CHR 0x22] @ '', type: ISSUE) {'' @ [CHR 0x0A] @
       ''        nodes {'' @ [CHR 0x0A] @
       ''          ... on PullRequest {'' @ [CHR 0x0A] @
       ''            title'' @ [CHR 0x0A] @
       ''          }'' @ [CHR 0x0A] @
       ''        }'' @ [CHR 0x0A] @
       ''      }'' @ [CHR 0x0A] @
       ''    }''"
    unfolding q by simp
  from a paris_local_day paris_day_before q n show ?thesis by (intro conjI) blast+
qed

end
